theory Spec2Isabelle
  imports Complex_Main "HOL-Library.Word"
begin

unbundle bit_operations_syntax

section \<open>Machine types\<close>

type_synonym u8 = "8 word"
type_synonym s16 = "16 word"

text \<open>
  The drivers' C++ identifiers end in an underscore (\<open>imu_\<close>, \<open>current_bank_\<close>,
  \<open>REG_BANK_SEL_\<close>); such names are not admissible in Isabelle terms, so every name below is the
  source's name without its trailing underscore. A \<open>uint8_t\<close> is an \<open>8 word\<close>, an
  \<open>int16_t\<close> a \<open>16 word\<close> read through \<open>sint\<close>. A C array is a function from
  the index to the element. A \<open>float\<close> or \<open>double\<close> is the real number its expression
  denotes; rounding is not part of the model.
\<close>

section \<open>The transport\<close>

text \<open>
  Modelled from the spec: the transport object (\<open>imu_\<close> of the ICM drivers, \<open>Wire\<close> of
  MPU9250) is an external collaborator, not part of the sources. The specification gives it as
  \<open>WriteRegister(addr, value, clockSpeed) -> bool\<close> and
  \<open>ReadRegisters(addr, count, clockSpeed, buffer) -> bool\<close>, each a complete bus transaction
  that fails on a bus error. The model makes no assumption on the device behind the bus: the bus
  holds the replies it is going to give to the coming transactions (\<open>pending\<close>: the success flag
  and, for a read, the bytes left in the destination buffer), and the record of the transactions
  issued so far (\<open>issued\<close>). A bus with no reply left fails the transaction. A read of
  \<open>count\<close> bytes leaves exactly \<open>count\<close> bytes, a shorter reply being filled with zero bytes.
\<close>

datatype bus_op = BusWrite u8 u8 | BusRead u8 nat

type_synonym reply = "bool \<times> u8 list"
type_synonym transaction = "bus_op \<times> bool \<times> u8 list"

record bus =
  pending :: "reply list"
  issued :: "transaction list"

definition fill :: "nat \<Rightarrow> u8 list \<Rightarrow> u8 list" where
  "fill n bs = take n (bs @ replicate n 0)"

definition first_reply :: "reply list \<Rightarrow> reply" where
  "first_reply rs = (case rs of [] \<Rightarrow> (False, []) | r # _ \<Rightarrow> r)"

definition next_reply :: "bus \<Rightarrow> reply" where
  "next_reply b = first_reply (pending b)"

definition imu_WriteRegister :: "u8 \<Rightarrow> u8 \<Rightarrow> bus \<Rightarrow> bool \<times> bus" where
  "imu_WriteRegister reg data b =
     (let ok = fst (next_reply b)
      in (ok, \<lparr>pending = tl (pending b), issued = issued b @ [(BusWrite reg data, ok, [])]\<rparr>))"

definition imu_ReadRegisters :: "u8 \<Rightarrow> nat \<Rightarrow> bus \<Rightarrow> (bool \<times> u8 list) \<times> bus" where
  "imu_ReadRegisters reg count b =
     (let ok = fst (next_reply b); bs = fill count (snd (next_reply b))
      in ((ok, bs), \<lparr>pending = tl (pending b), issued = issued b @ [(BusRead reg count, ok, bs)]\<rparr>))"

text \<open>Copying the bytes a read delivered into a destination array, from index 0.\<close>

definition store :: "u8 list \<Rightarrow> (nat \<Rightarrow> u8) \<Rightarrow> (nat \<Rightarrow> u8)" where
  "store bs buf = (\<lambda>i. if i < length bs then bs ! i else buf i)"

text \<open>The transactions a run added to the record, and the bus writes to one register among them.\<close>

definition new_transactions :: "bus \<Rightarrow> bus \<Rightarrow> transaction list" where
  "new_transactions b b' = drop (length (issued b)) (issued b')"

definition is_write_to :: "u8 \<Rightarrow> transaction \<Rightarrow> bool" where
  "is_write_to reg t = (case fst t of BusWrite r _ \<Rightarrow> r = reg | BusRead _ _ \<Rightarrow> False)"

definition is_write :: "transaction \<Rightarrow> bool" where
  "is_write t = (case fst t of BusWrite _ _ \<Rightarrow> True | BusRead _ _ \<Rightarrow> False)"

section \<open>The constants of the missing headers\<close>

text \<open>
  \<open>Icm20649.h\<close> and \<open>Icm20948.h\<close> are not among the sources: the register addresses, bit
  values, enumerators, physical constants and array sizes they declare are parameters of the
  model, collected in one record. Every theorem below holds for every value of this record,
  under the hypotheses it states. An enumeration is its underlying byte.
\<close>

record hdr =
  USER_CTRL :: u8
  I2C_IF_DIS :: u8
  PWR_MGMT_1 :: u8
  CLKSEL_AUTO :: u8
  WHO_AM_I :: u8
  WHOAMI_ICM20649 :: u8
  ODR_ALIGN_EN :: u8
  ALIGN_ODR :: u8
  INT_ENABLE_1 :: u8
  INT_RAW_RDY_EN :: u8
  INT_DISABLE :: u8
  ACCEL_CONFIG :: u8
  GYRO_CONFIG_1 :: u8
  ACCEL_SMPLRT_DIV_2 :: u8
  GYRO_SMPLRT_DIV :: u8
  H_RESET :: u8
  INT_STATUS_1 :: u8
  RAW_DATA_RDY_INT :: u8
  ACCEL_XOUT_H :: u8
  REG_BANK_SEL :: u8
  G_MPS2 :: real
  TEMP_SCALE :: real
  DEG2RAD :: real
  BANK_0 :: u8
  BANK_2 :: u8
  BANK_3 :: u8
  USER_CTRL_I2C_IF_DIS :: u8
  USER_CTRL_I2C_MST_EN :: u8
  PWR_MGMT_1_CLKSEL_AUTO :: u8
  PWR_MGMT_1_RESET :: u8
  I2C_MST_CTRL :: u8
  I2C_MST_CTRL_400_KHZ_CLK :: u8
  ODR_ALIGN_EN_ALIGN_ENABLE :: u8
  INT_ENABLE_1_INT_ENABLE :: u8
  INT_ENABLE_1_INT_DISABLE :: u8
  TEMP_CONFIG :: u8
  I2C_SLV0_ADDR :: u8
  I2C_SLV0_ADDR_READ :: u8
  I2C_SLV0_REG :: u8
  I2C_SLV0_D0 :: u8
  I2C_SLV0_CTRL :: u8
  I2C_SLV0_CTRL_EN :: u8
  EXT_SLV_SENS_DATA_00 :: u8
  AK09916_I2C_ADDR :: u8
  AK09916_WIA2 :: u8
  WHOAMI_AK09916 :: u8
  AK09916_ST1 :: u8
  AK09916_ST1_DRDY :: u8
  AK09916_ST2_HOFL :: u8
  AK09916_CNTL2 :: u8
  AK09916_CNTL2_CONT_MEAS_MODE1 :: u8
  AK09916_CNTL3 :: u8
  AK09916_CNTL3_SRST :: u8
  MAG_SCALE :: real
  ACCEL_RANGE_2G :: u8
  ACCEL_RANGE_4G :: u8
  ACCEL_RANGE_8G :: u8
  ACCEL_RANGE_16G :: u8
  ACCEL_RANGE_30G :: u8
  GYRO_RANGE_250DPS :: u8
  GYRO_RANGE_500DPS :: u8
  GYRO_RANGE_1000DPS :: u8
  GYRO_RANGE_2000DPS :: u8
  GYRO_RANGE_4000DPS :: u8
  ACCEL_DLPF_BANDWIDTH_246HZ :: u8
  ACCEL_DLPF_BANDWIDTH_111HZ :: u8
  ACCEL_DLPF_BANDWIDTH_50HZ :: u8
  ACCEL_DLPF_BANDWIDTH_23HZ :: u8
  ACCEL_DLPF_BANDWIDTH_11HZ :: u8
  ACCEL_DLPF_BANDWIDTH_5HZ :: u8
  ACCEL_DLPF_BANDWIDTH_473HZ :: u8
  GYRO_DLPF_BANDWIDTH_196HZ :: u8
  GYRO_DLPF_BANDWIDTH_151HZ :: u8
  GYRO_DLPF_BANDWIDTH_119HZ :: u8
  GYRO_DLPF_BANDWIDTH_51HZ :: u8
  GYRO_DLPF_BANDWIDTH_23HZ :: u8
  GYRO_DLPF_BANDWIDTH_11HZ :: u8
  GYRO_DLPF_BANDWIDTH_5HZ :: u8
  GYRO_DLPF_BANDWIDTH_361HZ :: u8
  TEMP_DLPF_BANDWIDTH_7932HZ :: u8
  TEMP_DLPF_BANDWIDTH_217HZ :: u8
  TEMP_DLPF_BANDWIDTH_123HZ :: u8
  TEMP_DLPF_BANDWIDTH_65HZ :: u8
  TEMP_DLPF_BANDWIDTH_34HZ :: u8
  TEMP_DLPF_BANDWIDTH_17HZ :: u8
  TEMP_DLPF_BANDWIDTH_8HZ :: u8
  sizeof_data_buf :: nat
  sizeof_mag_data :: nat

section \<open>The driver state\<close>

datatype iface = I2C | SPI

record Icm20649 =
  imu :: bus
  iface :: iface
  current_bank :: u8
  who_am_i :: u8
  requested_accel_range :: u8
  requested_accel_scale :: real
  accel_range :: u8
  accel_scale :: real
  requested_gyro_range :: u8
  requested_gyro_scale :: real
  gyro_range :: u8
  gyro_scale :: real
  srd :: u8
  accel_requested_dlpf :: u8
  accel_dlpf_bandwidth :: u8
  gyro_requested_dlpf :: u8
  gyro_dlpf_bandwidth :: u8
  data_buf :: "nat \<Rightarrow> u8"
  new_imu_data :: bool
  accel_cnts :: "nat \<Rightarrow> s16"
  gyro_cnts :: "nat \<Rightarrow> s16"
  temp_cnts :: s16
  accel :: "nat \<Rightarrow> real"
  gyro :: "nat \<Rightarrow> real"
  temp :: real

text \<open>\<open>Icm20948\<close> has the members of \<open>Icm20649\<close> and those of the magnetometer path.\<close>

record Icm20948 = Icm20649 +
  temp_requested_dlpf :: u8
  temp_dlpf_bandwidth :: u8
  mag_data :: "nat \<Rightarrow> u8"
  new_mag_data :: bool
  mag_sensor_overflow :: bool
  mag_cnts :: "nat \<Rightarrow> s16"
  mag :: "nat \<Rightarrow> real"

section \<open>Icm20649: register access\<close>

definition Icm20649_WriteRegister :: "u8 \<Rightarrow> u8 \<Rightarrow> Icm20649 \<Rightarrow> bool \<times> Icm20649" where
  "Icm20649_WriteRegister reg data s =
     (case imu_WriteRegister reg data (imu s) of (ok, b) \<Rightarrow> (ok, s\<lparr>imu := b\<rparr>))"

text \<open>The bytes read are returned; the caller stores them where the source's pointer points.\<close>

definition Icm20649_ReadRegisters :: "u8 \<Rightarrow> u8 \<Rightarrow> Icm20649 \<Rightarrow> bool \<times> u8 list \<times> Icm20649" where
  "Icm20649_ReadRegisters reg count s =
     (case imu_ReadRegisters reg (unat count) (imu s) of ((ok, bs), b) \<Rightarrow> (ok, bs, s\<lparr>imu := b\<rparr>))"

definition Icm20649_SetBank :: "hdr \<Rightarrow> u8 \<Rightarrow> Icm20649 \<Rightarrow> bool \<times> Icm20649" where
  "Icm20649_SetBank c bank s =
     (if bank \<noteq> current_bank s then
        (case Icm20649_WriteRegister (REG_BANK_SEL c) (push_bit 4 bank) s of
           (ok, s1) \<Rightarrow> if ok then (True, s1\<lparr>current_bank := bank\<rparr>) else (False, s1))
      else (True, s))"

section \<open>Icm20649: configuration\<close>

text \<open>
  Each configuration function is two definitions. The first, \<open>_set\<close>, is the part of the
  function under its comments \<open>Try setting the requested ...\<close> and \<open>Update stored ...\<close>:
  the read of the register, the patch of \<open>data_buf_[0]\<close>, the write and the commit. The second
  is the function: the \<open>switch\<close> that checks the input and stages the request, then the first
  part. A \<open>switch\<close> over the enumerators is the chain of comparisons in the order of its
  \<open>case\<close> labels; where every label runs the same statements, it is their disjunction.
\<close>

definition Icm20649_ConfigAccelRange_set :: "hdr \<Rightarrow> Icm20649 \<Rightarrow> bool \<times> Icm20649" where
  "Icm20649_ConfigAccelRange_set c s1 =
     (case Icm20649_ReadRegisters (ACCEL_CONFIG c) 1 s1 of (_, bs, s2) \<Rightarrow>
      let s3 = s2\<lparr>data_buf := store bs (data_buf s2)\<rparr>;
          s4 = s3\<lparr>data_buf := (data_buf s3)(0 := data_buf s3 0 AND NOT 0x06)\<rparr>;
          s5 = s4\<lparr>data_buf := (data_buf s4)(0 := data_buf s4 0 OR push_bit 1 (requested_accel_range s4))\<rparr>
      in case Icm20649_WriteRegister (ACCEL_CONFIG c) (data_buf s5 0) s5 of (ok, s6) \<Rightarrow>
         if \<not> ok then (False, s6)
         else (True, s6\<lparr>accel_range := requested_accel_range s6, accel_scale := requested_accel_scale s6\<rparr>))"

definition Icm20649_ConfigAccelRange :: "hdr \<Rightarrow> u8 \<Rightarrow> Icm20649 \<Rightarrow> bool \<times> Icm20649" where
  "Icm20649_ConfigAccelRange c range' s =
     (case Icm20649_SetBank c 2 s of (banked, s0) \<Rightarrow>
      if \<not> banked then (False, s0) else
      (case (if range' = ACCEL_RANGE_4G c then Some (4 / 32767.5)
             else if range' = ACCEL_RANGE_8G c then Some (8 / 32767.5)
             else if range' = ACCEL_RANGE_16G c then Some (16 / 32767.5)
             else if range' = ACCEL_RANGE_30G c then Some (32 / 32767.5)
             else None) of
         None \<Rightarrow> (False, s0)
       | Some scale \<Rightarrow>
           Icm20649_ConfigAccelRange_set c
             (s0\<lparr>requested_accel_range := range', requested_accel_scale := scale\<rparr>)))"

definition Icm20649_ConfigGyroRange_set :: "hdr \<Rightarrow> Icm20649 \<Rightarrow> bool \<times> Icm20649" where
  "Icm20649_ConfigGyroRange_set c s1 =
     (case Icm20649_ReadRegisters (GYRO_CONFIG_1 c) 1 s1 of (_, bs, s2) \<Rightarrow>
      let s3 = s2\<lparr>data_buf := store bs (data_buf s2)\<rparr>;
          s4 = s3\<lparr>data_buf := (data_buf s3)(0 := data_buf s3 0 AND NOT 0x06)\<rparr>;
          s5 = s4\<lparr>data_buf := (data_buf s4)(0 := data_buf s4 0 OR push_bit 1 (requested_accel_range s4))\<rparr>
      in case Icm20649_WriteRegister (GYRO_CONFIG_1 c) (data_buf s5 0) s5 of (ok, s6) \<Rightarrow>
         if \<not> ok then (False, s6)
         else (True, s6\<lparr>gyro_range := requested_gyro_range s6, gyro_scale := requested_gyro_scale s6\<rparr>))"

definition Icm20649_ConfigGyroRange :: "hdr \<Rightarrow> u8 \<Rightarrow> Icm20649 \<Rightarrow> bool \<times> Icm20649" where
  "Icm20649_ConfigGyroRange c range' s =
     (case Icm20649_SetBank c 2 s of (banked, s0) \<Rightarrow>
      if \<not> banked then (False, s0) else
      (case (if range' = GYRO_RANGE_500DPS c then Some (500 / 32767.5)
             else if range' = GYRO_RANGE_1000DPS c then Some (1000 / 32767.5)
             else if range' = GYRO_RANGE_2000DPS c then Some (2000 / 32767.5)
             else if range' = GYRO_RANGE_4000DPS c then Some (4000 / 32767.5)
             else None) of
         None \<Rightarrow> (False, s0)
       | Some scale \<Rightarrow>
           Icm20649_ConfigGyroRange_set c
             (s0\<lparr>requested_gyro_range := range', requested_gyro_scale := scale\<rparr>)))"

definition Icm20649_ConfigSrd :: "hdr \<Rightarrow> u8 \<Rightarrow> Icm20649 \<Rightarrow> bool \<times> Icm20649" where
  "Icm20649_ConfigSrd c srd' s =
     (case Icm20649_SetBank c 2 s of (banked, s0) \<Rightarrow>
      if \<not> banked then (False, s0) else
      case Icm20649_WriteRegister (ACCEL_SMPLRT_DIV_2 c) srd' s0 of (ok1, s1) \<Rightarrow>
      if \<not> ok1 then (False, s1) else
      case Icm20649_WriteRegister (GYRO_SMPLRT_DIV c) srd' s1 of (ok2, s2) \<Rightarrow>
      if \<not> ok2 then (False, s2) else (True, s2\<lparr>srd := srd'\<rparr>))"

definition Icm20649_ConfigAccelDlpfBandwidth_set :: "hdr \<Rightarrow> Icm20649 \<Rightarrow> bool \<times> Icm20649" where
  "Icm20649_ConfigAccelDlpfBandwidth_set c s1 =
     (case Icm20649_ReadRegisters (ACCEL_CONFIG c) 1 s1 of (_, bs, s2) \<Rightarrow>
      let s3 = s2\<lparr>data_buf := store bs (data_buf s2)\<rparr>;
          s4 = s3\<lparr>data_buf := (data_buf s3)(0 := data_buf s3 0 OR 0x01)\<rparr>;
          s5 = s4\<lparr>data_buf := (data_buf s4)(0 := data_buf s4 0 AND 0xC7)\<rparr>;
          s6 = s5\<lparr>data_buf := (data_buf s5)(0 := data_buf s5 0 OR push_bit 3 (accel_requested_dlpf s5))\<rparr>
      in case Icm20649_WriteRegister (ACCEL_CONFIG c) (data_buf s6 0) s6 of (ok, s7) \<Rightarrow>
         if \<not> ok then (False, s7)
         else (True, s7\<lparr>accel_dlpf_bandwidth := accel_requested_dlpf s7\<rparr>))"

definition Icm20649_ConfigAccelDlpfBandwidth :: "hdr \<Rightarrow> u8 \<Rightarrow> Icm20649 \<Rightarrow> bool \<times> Icm20649" where
  "Icm20649_ConfigAccelDlpfBandwidth c dlpf s =
     (case Icm20649_SetBank c 2 s of (banked, s0) \<Rightarrow>
      if \<not> banked then (False, s0) else
      if dlpf = ACCEL_DLPF_BANDWIDTH_246HZ c \<or> dlpf = ACCEL_DLPF_BANDWIDTH_111HZ c
         \<or> dlpf = ACCEL_DLPF_BANDWIDTH_50HZ c \<or> dlpf = ACCEL_DLPF_BANDWIDTH_23HZ c
         \<or> dlpf = ACCEL_DLPF_BANDWIDTH_11HZ c \<or> dlpf = ACCEL_DLPF_BANDWIDTH_5HZ c
         \<or> dlpf = ACCEL_DLPF_BANDWIDTH_473HZ c
      then Icm20649_ConfigAccelDlpfBandwidth_set c (s0\<lparr>accel_requested_dlpf := dlpf\<rparr>)
      else (False, s0))"

definition Icm20649_ConfigGyroDlpfBandwidth_set :: "hdr \<Rightarrow> Icm20649 \<Rightarrow> bool \<times> Icm20649" where
  "Icm20649_ConfigGyroDlpfBandwidth_set c s1 =
     (case Icm20649_ReadRegisters (GYRO_CONFIG_1 c) (of_nat (sizeof_data_buf c)) s1 of (_, bs, s2) \<Rightarrow>
      let s3 = s2\<lparr>data_buf := store bs (data_buf s2)\<rparr>;
          s4 = s3\<lparr>data_buf := (data_buf s3)(0 := data_buf s3 0 OR 0x01)\<rparr>;
          s5 = s4\<lparr>data_buf := (data_buf s4)(0 := data_buf s4 0 AND 0xC7)\<rparr>;
          s6 = s5\<lparr>data_buf := (data_buf s5)(0 := data_buf s5 0 OR push_bit 3 (gyro_requested_dlpf s5))\<rparr>
      in case Icm20649_WriteRegister (GYRO_CONFIG_1 c) (data_buf s6 0) s6 of (ok, s7) \<Rightarrow>
         if \<not> ok then (False, s7)
         else (True, s7\<lparr>gyro_dlpf_bandwidth := gyro_requested_dlpf s7\<rparr>))"

definition Icm20649_ConfigGyroDlpfBandwidth :: "hdr \<Rightarrow> u8 \<Rightarrow> Icm20649 \<Rightarrow> bool \<times> Icm20649" where
  "Icm20649_ConfigGyroDlpfBandwidth c dlpf s =
     (case Icm20649_SetBank c 2 s of (banked, s0) \<Rightarrow>
      if \<not> banked then (False, s0) else
      if dlpf = GYRO_DLPF_BANDWIDTH_196HZ c \<or> dlpf = GYRO_DLPF_BANDWIDTH_151HZ c
         \<or> dlpf = GYRO_DLPF_BANDWIDTH_119HZ c \<or> dlpf = GYRO_DLPF_BANDWIDTH_51HZ c
         \<or> dlpf = GYRO_DLPF_BANDWIDTH_23HZ c \<or> dlpf = GYRO_DLPF_BANDWIDTH_11HZ c
         \<or> dlpf = GYRO_DLPF_BANDWIDTH_5HZ c \<or> dlpf = GYRO_DLPF_BANDWIDTH_361HZ c
      then Icm20649_ConfigGyroDlpfBandwidth_set c (s0\<lparr>gyro_requested_dlpf := dlpf\<rparr>)
      else (False, s0))"

section \<open>Icm20649: bring-up, interrupts, reset\<close>

text \<open>
  \<open>delay\<close>, \<open>imu_.Begin()\<close> and \<open>Serial.println\<close> touch neither the registers nor the
  driver's members and are left out. \<open>&who_am_i_\<close> is a destination of one byte.
\<close>

definition Icm20649_Begin :: "hdr \<Rightarrow> Icm20649 \<Rightarrow> bool \<times> Icm20649" where
  "Icm20649_Begin c s =
     (let s0 = (if iface s = SPI then snd (Icm20649_WriteRegister (USER_CTRL c) (I2C_IF_DIS c) s) else s) in
      case Icm20649_SetBank c 0 s0 of (ok1, s1) \<Rightarrow>
      if \<not> ok1 then (False, s1) else
      case Icm20649_WriteRegister (PWR_MGMT_1 c) (CLKSEL_AUTO c) s1 of (ok2, s2) \<Rightarrow>
      if \<not> ok2 then (False, s2) else
      case Icm20649_ReadRegisters (WHO_AM_I c) 1 s2 of (ok3, bs, s3) \<Rightarrow>
      let s4 = s3\<lparr>who_am_i := store bs (\<lambda>_. who_am_i s3) 0\<rparr> in
      if \<not> ok3 then (False, s4) else
      if who_am_i s4 \<noteq> WHOAMI_ICM20649 c then (False, s4) else
      let s5 = snd (Icm20649_SetBank c 2 s4) in
      case Icm20649_WriteRegister (ODR_ALIGN_EN c) (ALIGN_ODR c) s5 of (ok6, s6) \<Rightarrow>
      if \<not> ok6 then (False, s6) else
      case Icm20649_ConfigAccelRange c (ACCEL_RANGE_30G c) s6 of (ok7, s7) \<Rightarrow>
      if \<not> ok7 then (False, s7) else
      case Icm20649_ConfigGyroRange c (GYRO_RANGE_4000DPS c) s7 of (ok8, s8) \<Rightarrow>
      if \<not> ok8 then (False, s8) else
      case Icm20649_ConfigAccelDlpfBandwidth c (ACCEL_DLPF_BANDWIDTH_111HZ c) s8 of (ok9, s9) \<Rightarrow>
      if \<not> ok9 then (False, s9) else
      case Icm20649_ConfigGyroDlpfBandwidth c (GYRO_DLPF_BANDWIDTH_119HZ c) s9 of (ok10, s10) \<Rightarrow>
      if \<not> ok10 then (False, s10) else
      case Icm20649_ConfigSrd c 0 s10 of (ok11, s11) \<Rightarrow>
      if \<not> ok11 then (False, s11) else (True, s11))"

definition Icm20649_EnableDrdyInt :: "hdr \<Rightarrow> Icm20649 \<Rightarrow> bool \<times> Icm20649" where
  "Icm20649_EnableDrdyInt c s =
     (case Icm20649_SetBank c 0 s of (ok0, s0) \<Rightarrow>
      if \<not> ok0 then (False, s0) else
      case Icm20649_WriteRegister (INT_ENABLE_1 c) (INT_RAW_RDY_EN c) s0 of (ok1, s1) \<Rightarrow>
      if \<not> ok1 then (False, s1) else (True, s1))"

definition Icm20649_DisableDrdyInt :: "hdr \<Rightarrow> Icm20649 \<Rightarrow> bool \<times> Icm20649" where
  "Icm20649_DisableDrdyInt c s =
     (case Icm20649_SetBank c 0 s of (ok0, s0) \<Rightarrow>
      if \<not> ok0 then (False, s0) else
      case Icm20649_WriteRegister (INT_ENABLE_1 c) (INT_DISABLE c) s0 of (ok1, s1) \<Rightarrow>
      if \<not> ok1 then (False, s1) else (True, s1))"

definition Icm20649_Reset :: "hdr \<Rightarrow> Icm20649 \<Rightarrow> Icm20649" where
  "Icm20649_Reset c s =
     snd (Icm20649_WriteRegister (PWR_MGMT_1 c) (H_RESET c) (snd (Icm20649_SetBank c 0 s)))"

section \<open>Icm20649: acquisition\<close>

text \<open>
  \<open>static_cast<int16_t>(hi) << 8 | lo\<close>, stored in an \<open>int16_t\<close>: the 16-bit word with \<open>hi\<close>
  as its high byte and \<open>lo\<close> as its low byte.
\<close>

definition int16_of :: "u8 \<Rightarrow> u8 \<Rightarrow> s16" where
  "int16_of hi lo = push_bit 8 (ucast hi) OR ucast lo"

text \<open>
  \<open>Read\<close> in three definitions: the block under the comment \<open>Unpack the buffer\<close>, the block
  under \<open>Convert to float values and rotate the accel / gyro axis\<close>, and the function, which
  runs them on the state the burst read leaves.
\<close>

definition Icm20649_Read_unpack :: "Icm20649 \<Rightarrow> Icm20649" where
  "Icm20649_Read_unpack s =
     s\<lparr>accel_cnts := (accel_cnts s)
           (0 := int16_of (data_buf s 0) (data_buf s 1),
            1 := int16_of (data_buf s 2) (data_buf s 3),
            2 := int16_of (data_buf s 4) (data_buf s 5)),
       gyro_cnts := (gyro_cnts s)
           (0 := int16_of (data_buf s 6) (data_buf s 7),
            1 := int16_of (data_buf s 8) (data_buf s 9),
            2 := int16_of (data_buf s 10) (data_buf s 11)),
       temp_cnts := int16_of (data_buf s 12) (data_buf s 13)\<rparr>"

definition Icm20649_Read_convert :: "hdr \<Rightarrow> Icm20649 \<Rightarrow> Icm20649" where
  "Icm20649_Read_convert c s =
     s\<lparr>accel := (accel s)
           (0 := real_of_int (sint (accel_cnts s 0)) * accel_scale s * G_MPS2 c,
            1 := real_of_int (sint (accel_cnts s 1)) * accel_scale s * - 1 * G_MPS2 c,
            2 := real_of_int (sint (accel_cnts s 2)) * accel_scale s * - 1 * G_MPS2 c),
       temp := (real_of_int (sint (temp_cnts s)) - 21) / TEMP_SCALE c + 21,
       gyro := (gyro s)
           (0 := real_of_int (sint (gyro_cnts s 0)) * gyro_scale s * DEG2RAD c,
            1 := real_of_int (sint (gyro_cnts s 1)) * gyro_scale s * - 1 * DEG2RAD c,
            2 := real_of_int (sint (gyro_cnts s 2)) * gyro_scale s * - 1 * DEG2RAD c)\<rparr>"

definition Icm20649_Read :: "hdr \<Rightarrow> Icm20649 \<Rightarrow> bool \<times> Icm20649" where
  "Icm20649_Read c s =
     (let s0 = snd (Icm20649_SetBank c 0 s);
          s1 = s0\<lparr>new_imu_data := False\<rparr> in
      case Icm20649_ReadRegisters (INT_STATUS_1 c) 1 s1 of (ok, bs, s2) \<Rightarrow>
      let s3 = s2\<lparr>data_buf := store bs (data_buf s2)\<rparr> in
      if \<not> ok then (False, s3) else
      let s4 = s3\<lparr>new_imu_data := (data_buf s3 0 AND RAW_DATA_RDY_INT c \<noteq> 0)\<rparr> in
      if \<not> new_imu_data s4 then (False, s4) else
      case Icm20649_ReadRegisters (ACCEL_XOUT_H c) 14 s4 of (_, bs', s5) \<Rightarrow>
      let s6 = s5\<lparr>data_buf := store bs' (data_buf s5)\<rparr>
      in (True, Icm20649_Read_convert c (Icm20649_Read_unpack s6)))"

section \<open>Icm20948: register access and the auxiliary bus\<close>

definition Icm20948_WriteRegister :: "hdr \<Rightarrow> u8 \<Rightarrow> u8 \<Rightarrow> u8 \<Rightarrow> Icm20948 \<Rightarrow> bool \<times> Icm20948" where
  "Icm20948_WriteRegister c bank reg data s =
     (case (if bank \<noteq> current_bank s then
              (case imu_WriteRegister (REG_BANK_SEL c) (push_bit 4 bank) (imu s) of
                 (sel, b) \<Rightarrow> if \<not> sel then (False, s\<lparr>imu := b\<rparr>)
                             else (True, s\<lparr>imu := b, current_bank := bank\<rparr>))
            else (True, s)) of
        (selected, s1) \<Rightarrow>
          if \<not> selected then (False, s1)
          else (case imu_WriteRegister reg data (imu s1) of (ok, b) \<Rightarrow> (ok, s1\<lparr>imu := b\<rparr>)))"

definition Icm20948_ReadRegisters :: "hdr \<Rightarrow> u8 \<Rightarrow> u8 \<Rightarrow> u8 \<Rightarrow> Icm20948 \<Rightarrow> bool \<times> u8 list \<times> Icm20948" where
  "Icm20948_ReadRegisters c bank reg count s =
     (case (if bank \<noteq> current_bank s then
              (case imu_WriteRegister (REG_BANK_SEL c) (push_bit 4 bank) (imu s) of
                 (sel, b) \<Rightarrow> if \<not> sel then (False, s\<lparr>imu := b\<rparr>)
                             else (True, s\<lparr>imu := b, current_bank := bank\<rparr>))
            else (True, s)) of
        (selected, s1) \<Rightarrow>
          if \<not> selected then (False, [], s1)
          else (case imu_ReadRegisters reg (unat count) (imu s1) of
                  ((ok, bs), b) \<Rightarrow> (ok, bs, s1\<lparr>imu := b\<rparr>)))"

definition Icm20948_ReadAk09916Registers :: "hdr \<Rightarrow> u8 \<Rightarrow> u8 \<Rightarrow> Icm20948 \<Rightarrow> bool \<times> u8 list \<times> Icm20948" where
  "Icm20948_ReadAk09916Registers c reg count s =
     (case Icm20948_WriteRegister c (BANK_3 c) (I2C_SLV0_ADDR c)
             (AK09916_I2C_ADDR c OR I2C_SLV0_ADDR_READ c) s of (ok1, s1) \<Rightarrow>
      if \<not> ok1 then (False, [], s1) else
      case Icm20948_WriteRegister c (BANK_3 c) (I2C_SLV0_REG c) reg s1 of (ok2, s2) \<Rightarrow>
      if \<not> ok2 then (False, [], s2) else
      case Icm20948_WriteRegister c (BANK_3 c) (I2C_SLV0_CTRL c) (I2C_SLV0_CTRL_EN c OR count) s2 of (ok3, s3) \<Rightarrow>
      if \<not> ok3 then (False, [], s3) else
      case Icm20948_ReadRegisters c (BANK_0 c) (EXT_SLV_SENS_DATA_00 c) count s3 of (ok4, bs, s4) \<Rightarrow>
      if ok4 then (True, bs, s4) else (False, bs, s4))"

text \<open>
  \<open>ret_val\<close> is a local byte, the destination of the read-back; it is compared only after a
  read that succeeded, which delivered one byte.
\<close>

definition Icm20948_WriteAk09916Register :: "hdr \<Rightarrow> u8 \<Rightarrow> u8 \<Rightarrow> Icm20948 \<Rightarrow> bool \<times> Icm20948" where
  "Icm20948_WriteAk09916Register c reg data s =
     (case Icm20948_WriteRegister c (BANK_3 c) (I2C_SLV0_ADDR c) (AK09916_I2C_ADDR c) s of (ok1, s1) \<Rightarrow>
      if \<not> ok1 then (False, s1) else
      case Icm20948_WriteRegister c (BANK_3 c) (I2C_SLV0_REG c) reg s1 of (ok2, s2) \<Rightarrow>
      if \<not> ok2 then (False, s2) else
      case Icm20948_WriteRegister c (BANK_3 c) (I2C_SLV0_D0 c) data s2 of (ok3, s3) \<Rightarrow>
      if \<not> ok3 then (False, s3) else
      case Icm20948_WriteRegister c (BANK_3 c) (I2C_SLV0_CTRL c) (I2C_SLV0_CTRL_EN c OR 1) s3 of (ok4, s4) \<Rightarrow>
      if \<not> ok4 then (False, s4) else
      case Icm20948_ReadAk09916Registers c reg 1 s4 of (ok5, bs, s5) \<Rightarrow>
      if \<not> ok5 then (False, s5) else
      let ret_val = store bs (\<lambda>_. 0) 0 in
      if data = ret_val then (True, s5) else (False, s5))"

section \<open>Icm20948: configuration\<close>

definition Icm20948_ConfigAccelRange_set :: "hdr \<Rightarrow> Icm20948 \<Rightarrow> bool \<times> Icm20948" where
  "Icm20948_ConfigAccelRange_set c s1 =
     (case Icm20948_ReadRegisters c (BANK_2 c) (ACCEL_CONFIG c) 1 s1 of (_, bs, s2) \<Rightarrow>
      let s3 = s2\<lparr>data_buf := store bs (data_buf s2)\<rparr>;
          s4 = s3\<lparr>data_buf := (data_buf s3)(0 := data_buf s3 0 AND NOT 0x06)\<rparr>;
          s5 = s4\<lparr>data_buf := (data_buf s4)(0 := data_buf s4 0 OR push_bit 1 (requested_accel_range s4))\<rparr>
      in case Icm20948_WriteRegister c (BANK_2 c) (ACCEL_CONFIG c) (data_buf s5 0) s5 of (ok, s6) \<Rightarrow>
         if \<not> ok then (False, s6)
         else (True, s6\<lparr>accel_range := requested_accel_range s6, accel_scale := requested_accel_scale s6\<rparr>))"

definition Icm20948_ConfigAccelRange :: "hdr \<Rightarrow> u8 \<Rightarrow> Icm20948 \<Rightarrow> bool \<times> Icm20948" where
  "Icm20948_ConfigAccelRange c range' s =
     (case (if range' = ACCEL_RANGE_2G c then Some (2 / 32767.5)
            else if range' = ACCEL_RANGE_4G c then Some (4 / 32767.5)
            else if range' = ACCEL_RANGE_8G c then Some (8 / 32767.5)
            else if range' = ACCEL_RANGE_16G c then Some (16 / 32767.5)
            else None) of
        None \<Rightarrow> (False, s)
      | Some scale \<Rightarrow>
          Icm20948_ConfigAccelRange_set c
            (s\<lparr>requested_accel_range := range', requested_accel_scale := scale\<rparr>))"

definition Icm20948_ConfigGyroRange_set :: "hdr \<Rightarrow> Icm20948 \<Rightarrow> bool \<times> Icm20948" where
  "Icm20948_ConfigGyroRange_set c s1 =
     (case Icm20948_ReadRegisters c (BANK_2 c) (GYRO_CONFIG_1 c) 1 s1 of (_, bs, s2) \<Rightarrow>
      let s3 = s2\<lparr>data_buf := store bs (data_buf s2)\<rparr>;
          s4 = s3\<lparr>data_buf := (data_buf s3)(0 := data_buf s3 0 AND NOT 0x06)\<rparr>;
          s5 = s4\<lparr>data_buf := (data_buf s4)(0 := data_buf s4 0 OR push_bit 1 (requested_accel_range s4))\<rparr>
      in case Icm20948_WriteRegister c (BANK_2 c) (GYRO_CONFIG_1 c) (data_buf s5 0) s5 of (ok, s6) \<Rightarrow>
         if \<not> ok then (False, s6)
         else (True, s6\<lparr>gyro_range := requested_gyro_range s6, gyro_scale := requested_gyro_scale s6\<rparr>))"

definition Icm20948_ConfigGyroRange :: "hdr \<Rightarrow> u8 \<Rightarrow> Icm20948 \<Rightarrow> bool \<times> Icm20948" where
  "Icm20948_ConfigGyroRange c range' s =
     (case (if range' = GYRO_RANGE_250DPS c then Some (250 / 32767.5)
            else if range' = GYRO_RANGE_500DPS c then Some (500 / 32767.5)
            else if range' = GYRO_RANGE_1000DPS c then Some (1000 / 32767.5)
            else if range' = GYRO_RANGE_2000DPS c then Some (2000 / 32767.5)
            else None) of
        None \<Rightarrow> (False, s)
      | Some scale \<Rightarrow>
          Icm20948_ConfigGyroRange_set c
            (s\<lparr>requested_gyro_range := range', requested_gyro_scale := scale\<rparr>))"

definition Icm20948_ConfigSrd :: "hdr \<Rightarrow> u8 \<Rightarrow> Icm20948 \<Rightarrow> bool \<times> Icm20948" where
  "Icm20948_ConfigSrd c srd' s =
     (case Icm20948_WriteRegister c (BANK_2 c) (ACCEL_SMPLRT_DIV_2 c) srd' s of (ok1, s1) \<Rightarrow>
      if \<not> ok1 then (False, s1) else
      case Icm20948_WriteRegister c (BANK_2 c) (GYRO_SMPLRT_DIV c) srd' s1 of (ok2, s2) \<Rightarrow>
      if \<not> ok2 then (False, s2) else
      case Icm20948_WriteAk09916Register c (AK09916_CNTL2 c) (AK09916_CNTL2_CONT_MEAS_MODE1 c) s2 of (ok3, s3) \<Rightarrow>
      if \<not> ok3 then (False, s3) else
      case Icm20948_ReadAk09916Registers c (AK09916_ST1 c) (of_nat (sizeof_mag_data c)) s3 of (ok4, bs, s4) \<Rightarrow>
      let s5 = s4\<lparr>mag_data := store bs (mag_data s4)\<rparr> in
      if \<not> ok4 then (False, s5) else (True, s5\<lparr>srd := srd'\<rparr>))"

definition Icm20948_ConfigAccelDlpfBandwidth_set :: "hdr \<Rightarrow> Icm20948 \<Rightarrow> bool \<times> Icm20948" where
  "Icm20948_ConfigAccelDlpfBandwidth_set c s1 =
     (case Icm20948_ReadRegisters c (BANK_2 c) (ACCEL_CONFIG c) 1 s1 of (_, bs, s2) \<Rightarrow>
      let s3 = s2\<lparr>data_buf := store bs (data_buf s2)\<rparr>;
          s4 = s3\<lparr>data_buf := (data_buf s3)(0 := data_buf s3 0 OR 0x01)\<rparr>;
          s5 = s4\<lparr>data_buf := (data_buf s4)(0 := data_buf s4 0 AND 0xC7)\<rparr>;
          s6 = s5\<lparr>data_buf := (data_buf s5)(0 := data_buf s5 0 OR push_bit 3 (accel_requested_dlpf s5))\<rparr>
      in case Icm20948_WriteRegister c (BANK_2 c) (ACCEL_CONFIG c) (data_buf s6 0) s6 of (ok, s7) \<Rightarrow>
         if \<not> ok then (False, s7)
         else (True, s7\<lparr>accel_dlpf_bandwidth := accel_requested_dlpf s7\<rparr>))"

definition Icm20948_ConfigAccelDlpfBandwidth :: "hdr \<Rightarrow> u8 \<Rightarrow> Icm20948 \<Rightarrow> bool \<times> Icm20948" where
  "Icm20948_ConfigAccelDlpfBandwidth c dlpf s =
     (if dlpf = ACCEL_DLPF_BANDWIDTH_246HZ c \<or> dlpf = ACCEL_DLPF_BANDWIDTH_111HZ c
         \<or> dlpf = ACCEL_DLPF_BANDWIDTH_50HZ c \<or> dlpf = ACCEL_DLPF_BANDWIDTH_23HZ c
         \<or> dlpf = ACCEL_DLPF_BANDWIDTH_11HZ c \<or> dlpf = ACCEL_DLPF_BANDWIDTH_5HZ c
         \<or> dlpf = ACCEL_DLPF_BANDWIDTH_473HZ c
      then Icm20948_ConfigAccelDlpfBandwidth_set c (s\<lparr>accel_requested_dlpf := dlpf\<rparr>)
      else (False, s))"

definition Icm20948_ConfigGyroDlpfBandwidth_set :: "hdr \<Rightarrow> Icm20948 \<Rightarrow> bool \<times> Icm20948" where
  "Icm20948_ConfigGyroDlpfBandwidth_set c s1 =
     (case Icm20948_ReadRegisters c (BANK_2 c) (GYRO_CONFIG_1 c) (of_nat (sizeof_data_buf c)) s1 of (_, bs, s2) \<Rightarrow>
      let s3 = s2\<lparr>data_buf := store bs (data_buf s2)\<rparr>;
          s4 = s3\<lparr>data_buf := (data_buf s3)(0 := data_buf s3 0 OR 0x01)\<rparr>;
          s5 = s4\<lparr>data_buf := (data_buf s4)(0 := data_buf s4 0 AND 0xC7)\<rparr>;
          s6 = s5\<lparr>data_buf := (data_buf s5)(0 := data_buf s5 0 OR push_bit 3 (gyro_requested_dlpf s5))\<rparr>
      in case Icm20948_WriteRegister c (BANK_2 c) (GYRO_CONFIG_1 c) (data_buf s6 0) s6 of (ok, s7) \<Rightarrow>
         if \<not> ok then (False, s7)
         else (True, s7\<lparr>gyro_dlpf_bandwidth := gyro_requested_dlpf s7\<rparr>))"

definition Icm20948_ConfigGyroDlpfBandwidth :: "hdr \<Rightarrow> u8 \<Rightarrow> Icm20948 \<Rightarrow> bool \<times> Icm20948" where
  "Icm20948_ConfigGyroDlpfBandwidth c dlpf s =
     (if dlpf = GYRO_DLPF_BANDWIDTH_196HZ c \<or> dlpf = GYRO_DLPF_BANDWIDTH_151HZ c
         \<or> dlpf = GYRO_DLPF_BANDWIDTH_119HZ c \<or> dlpf = GYRO_DLPF_BANDWIDTH_51HZ c
         \<or> dlpf = GYRO_DLPF_BANDWIDTH_23HZ c \<or> dlpf = GYRO_DLPF_BANDWIDTH_11HZ c
         \<or> dlpf = GYRO_DLPF_BANDWIDTH_5HZ c \<or> dlpf = GYRO_DLPF_BANDWIDTH_361HZ c
      then Icm20948_ConfigGyroDlpfBandwidth_set c (s\<lparr>gyro_requested_dlpf := dlpf\<rparr>)
      else (False, s))"

definition Icm20948_ConfigTempDlpfBandwidth_set :: "hdr \<Rightarrow> Icm20948 \<Rightarrow> bool \<times> Icm20948" where
  "Icm20948_ConfigTempDlpfBandwidth_set c s1 =
     (case Icm20948_WriteRegister c (BANK_2 c) (TEMP_CONFIG c) (temp_requested_dlpf s1) s1 of (ok, s2) \<Rightarrow>
      if \<not> ok then (False, s2)
      else (True, s2\<lparr>temp_dlpf_bandwidth := temp_requested_dlpf s2\<rparr>))"

definition Icm20948_ConfigTempDlpfBandwidth :: "hdr \<Rightarrow> u8 \<Rightarrow> Icm20948 \<Rightarrow> bool \<times> Icm20948" where
  "Icm20948_ConfigTempDlpfBandwidth c dlpf s =
     (if dlpf = TEMP_DLPF_BANDWIDTH_7932HZ c \<or> dlpf = TEMP_DLPF_BANDWIDTH_217HZ c
         \<or> dlpf = TEMP_DLPF_BANDWIDTH_123HZ c \<or> dlpf = TEMP_DLPF_BANDWIDTH_65HZ c
         \<or> dlpf = TEMP_DLPF_BANDWIDTH_34HZ c \<or> dlpf = TEMP_DLPF_BANDWIDTH_17HZ c
         \<or> dlpf = TEMP_DLPF_BANDWIDTH_8HZ c
      then Icm20948_ConfigTempDlpfBandwidth_set c (s\<lparr>temp_requested_dlpf := dlpf\<rparr>)
      else (False, s))"

section \<open>Icm20948: bring-up and interrupts\<close>

definition Icm20948_Begin :: "hdr \<Rightarrow> Icm20948 \<Rightarrow> bool \<times> Icm20948" where
  "Icm20948_Begin c s =
     (let s0 = (if iface s = SPI
                then snd (Icm20948_WriteRegister c (BANK_0 c) (USER_CTRL c) (USER_CTRL_I2C_IF_DIS c) s)
                else s) in
      case Icm20948_WriteRegister c (BANK_0 c) (PWR_MGMT_1 c) (PWR_MGMT_1_CLKSEL_AUTO c) s0 of (ok1, s1) \<Rightarrow>
      if \<not> ok1 then (False, s1) else
      case Icm20948_WriteRegister c (BANK_0 c) (USER_CTRL c) (USER_CTRL_I2C_MST_EN c) s1 of (ok2, s2) \<Rightarrow>
      if \<not> ok2 then (False, s2) else
      case Icm20948_WriteRegister c (BANK_3 c) (I2C_MST_CTRL c) (I2C_MST_CTRL_400_KHZ_CLK c) s2 of (ok3, s3) \<Rightarrow>
      if \<not> ok3 then (False, s3) else
      let s4 = snd (Icm20948_WriteAk09916Register c (AK09916_CNTL3 c) (AK09916_CNTL3_SRST c) s3);
          s5 = snd (Icm20948_WriteRegister c (BANK_0 c) (PWR_MGMT_1 c) (PWR_MGMT_1_RESET c) s4);
          s6 = (if iface s5 = SPI
                then snd (Icm20948_WriteRegister c (BANK_0 c) (USER_CTRL c) (USER_CTRL_I2C_IF_DIS c) s5)
                else s5) in
      case Icm20948_WriteRegister c (BANK_0 c) (PWR_MGMT_1 c) (PWR_MGMT_1_CLKSEL_AUTO c) s6 of (ok7, s7) \<Rightarrow>
      if \<not> ok7 then (False, s7) else
      case Icm20948_ReadRegisters c (BANK_0 c) (WHO_AM_I c) 1 s7 of (ok8, bs, s8) \<Rightarrow>
      let s9 = s8\<lparr>who_am_i := store bs (\<lambda>_. who_am_i s8) 0\<rparr> in
      if \<not> ok8 then (False, s9) else
      if who_am_i s9 \<noteq> WHOAMI_ICM20649 c then (False, s9) else
      case Icm20948_WriteRegister c (BANK_0 c) (USER_CTRL c) (USER_CTRL_I2C_MST_EN c) s9 of (ok10, s10) \<Rightarrow>
      if \<not> ok10 then (False, s10) else
      case Icm20948_WriteRegister c (BANK_3 c) (I2C_MST_CTRL c) (I2C_MST_CTRL_400_KHZ_CLK c) s10 of (ok11, s11) \<Rightarrow>
      if \<not> ok11 then (False, s11) else
      case Icm20948_ReadAk09916Registers c (AK09916_WIA2 c) 1 s11 of (ok12, bs', s12) \<Rightarrow>
      let s13 = s12\<lparr>who_am_i := store bs' (\<lambda>_. who_am_i s12) 0\<rparr> in
      if \<not> ok12 then (False, s13) else
      if who_am_i s13 \<noteq> WHOAMI_AK09916 c then (False, s13) else
      case Icm20948_WriteRegister c (BANK_2 c) (ODR_ALIGN_EN c) (ODR_ALIGN_EN_ALIGN_ENABLE c) s13 of (ok14, s14) \<Rightarrow>
      if \<not> ok14 then (False, s14) else
      case Icm20948_ConfigAccelRange c (ACCEL_RANGE_16G c) s14 of (ok15, s15) \<Rightarrow>
      if \<not> ok15 then (False, s15) else
      case Icm20948_ConfigGyroRange c (GYRO_RANGE_2000DPS c) s15 of (ok16, s16) \<Rightarrow>
      if \<not> ok16 then (False, s16) else
      case Icm20948_ConfigAccelDlpfBandwidth c (ACCEL_DLPF_BANDWIDTH_473HZ c) s16 of (ok17, s17) \<Rightarrow>
      if \<not> ok17 then (False, s17) else
      case Icm20948_ConfigGyroDlpfBandwidth c (GYRO_DLPF_BANDWIDTH_361HZ c) s17 of (ok18, s18) \<Rightarrow>
      if \<not> ok18 then (False, s18) else
      case Icm20948_ConfigTempDlpfBandwidth c (TEMP_DLPF_BANDWIDTH_7932HZ c) s18 of (ok19, s19) \<Rightarrow>
      if \<not> ok19 then (False, s19) else
      case Icm20948_ConfigSrd c 0 s19 of (ok20, s20) \<Rightarrow>
      if \<not> ok20 then (False, s20) else (True, s20))"

definition Icm20948_EnableDrdyInt :: "hdr \<Rightarrow> Icm20948 \<Rightarrow> bool \<times> Icm20948" where
  "Icm20948_EnableDrdyInt c s =
     (case Icm20948_WriteRegister c (BANK_0 c) (INT_ENABLE_1 c) (INT_ENABLE_1_INT_ENABLE c) s of
        (ok, s1) \<Rightarrow> if \<not> ok then (False, s1) else (True, s1))"

definition Icm20948_DisableDrdyInt :: "hdr \<Rightarrow> Icm20948 \<Rightarrow> bool \<times> Icm20948" where
  "Icm20948_DisableDrdyInt c s =
     (case Icm20948_WriteRegister c (BANK_0 c) (INT_ENABLE_1 c) (INT_ENABLE_1_INT_DISABLE c) s of
        (ok, s1) \<Rightarrow> if \<not> ok then (False, s1) else (True, s1))"

section \<open>Icm20948: acquisition\<close>

text \<open>
  \<open>Read\<close> in three definitions, as for \<open>Icm20649\<close>; the first block runs from the comment
  \<open>Unpack the buffer\<close> to the end of the overflow check.
\<close>

definition Icm20948_Read_unpack :: "hdr \<Rightarrow> Icm20948 \<Rightarrow> Icm20948" where
  "Icm20948_Read_unpack c s =
     (let s1 = s\<lparr>accel_cnts := (accel_cnts s)
                     (0 := int16_of (data_buf s 0) (data_buf s 1),
                      1 := int16_of (data_buf s 2) (data_buf s 3),
                      2 := int16_of (data_buf s 4) (data_buf s 5)),
                  gyro_cnts := (gyro_cnts s)
                     (0 := int16_of (data_buf s 6) (data_buf s 7),
                      1 := int16_of (data_buf s 8) (data_buf s 9),
                      2 := int16_of (data_buf s 10) (data_buf s 11)),
                  temp_cnts := int16_of (data_buf s 12) (data_buf s 13),
                  new_mag_data := (data_buf s 14 AND AK09916_ST1_DRDY c \<noteq> 0),
                  mag_cnts := (mag_cnts s)
                     (0 := int16_of (data_buf s 16) (data_buf s 15),
                      1 := int16_of (data_buf s 18) (data_buf s 17),
                      2 := int16_of (data_buf s 20) (data_buf s 19)),
                  mag_sensor_overflow := (data_buf s 22 AND AK09916_ST2_HOFL c \<noteq> 0)\<rparr>
      in if mag_sensor_overflow s1 then s1\<lparr>new_mag_data := False\<rparr> else s1)"

definition Icm20948_Read_convert :: "hdr \<Rightarrow> Icm20948 \<Rightarrow> Icm20948" where
  "Icm20948_Read_convert c s =
     (let s1 = s\<lparr>accel := (accel s)
                     (0 := real_of_int (sint (accel_cnts s 1)) * accel_scale s * G_MPS2 c,
                      1 := real_of_int (sint (accel_cnts s 0)) * accel_scale s * G_MPS2 c,
                      2 := real_of_int (sint (accel_cnts s 2)) * accel_scale s * - 1 * G_MPS2 c),
                  temp := (real_of_int (sint (temp_cnts s)) - 21) / TEMP_SCALE c + 21,
                  gyro := (gyro s)
                     (0 := real_of_int (sint (gyro_cnts s 1)) * gyro_scale s * DEG2RAD c,
                      1 := real_of_int (sint (gyro_cnts s 0)) * gyro_scale s * DEG2RAD c,
                      2 := real_of_int (sint (gyro_cnts s 2)) * gyro_scale s * - 1 * DEG2RAD c)\<rparr>
      in if new_mag_data s1
         then s1\<lparr>mag := (mag s1)
                     (0 := - 1 * (real_of_int (sint (mag_cnts s1 1)) * MAG_SCALE c),
                      1 := real_of_int (sint (mag_cnts s1 0)) * MAG_SCALE c,
                      2 := real_of_int (sint (mag_cnts s1 2)) * MAG_SCALE c)\<rparr>
         else s1)"

definition Icm20948_Read :: "hdr \<Rightarrow> Icm20948 \<Rightarrow> bool \<times> Icm20948" where
  "Icm20948_Read c s =
     (let s1 = s\<lparr>new_imu_data := False\<rparr> in
      case Icm20948_ReadRegisters c (BANK_0 c) (INT_STATUS_1 c) 1 s1 of (ok, bs, s2) \<Rightarrow>
      let s3 = s2\<lparr>data_buf := store bs (data_buf s2)\<rparr> in
      if \<not> ok then (False, s3) else
      let s4 = s3\<lparr>new_imu_data := (data_buf s3 0 AND RAW_DATA_RDY_INT c \<noteq> 0)\<rparr> in
      if \<not> new_imu_data s4 then (False, s4) else
      case Icm20948_ReadRegisters c (BANK_0 c) (ACCEL_XOUT_H c) (of_nat (sizeof_data_buf c)) s4 of
        (_, bs', s5) \<Rightarrow>
      let s6 = s5\<lparr>data_buf := store bs' (data_buf s5)\<rparr>
      in (True, Icm20948_Read_convert c (Icm20948_Read_unpack c s6)))"

section \<open>MPU9250\<close>

text \<open>
  The macros of \<open>MPU9250.h\<close>, each under its name with the class's name in front. The members
  \<open>_address\<close>, \<open>_accelScale\<close> and \<open>_gyroScale\<close> lose their leading underscore.
  \<open>Wire\<close> is the transport; \<open>writeRegister\<close> returns nothing and drops the result of
  \<open>Wire.endTransmission()\<close>. An Arduino \<open>String\<close> is a \<open>string\<close>, \<open>equals\<close> is equality.
\<close>

definition MPU9250_ACCEL_CONFIG :: u8 where "MPU9250_ACCEL_CONFIG = 0x1C"
definition MPU9250_ACCEL_FS_SEL_2G :: u8 where "MPU9250_ACCEL_FS_SEL_2G = 0x00"
definition MPU9250_ACCEL_FS_SEL_4G :: u8 where "MPU9250_ACCEL_FS_SEL_4G = 0x08"
definition MPU9250_ACCEL_FS_SEL_8G :: u8 where "MPU9250_ACCEL_FS_SEL_8G = 0x10"
definition MPU9250_ACCEL_FS_SEL_16G :: u8 where "MPU9250_ACCEL_FS_SEL_16G = 0x18"
definition MPU9250_ACCEL_CONFIG2 :: u8 where "MPU9250_ACCEL_CONFIG2 = 0x1D"
definition MPU9250_ACCEL_DLPF_184 :: u8 where "MPU9250_ACCEL_DLPF_184 = 0x01"
definition MPU9250_ACCEL_DLPF_92 :: u8 where "MPU9250_ACCEL_DLPF_92 = 0x02"
definition MPU9250_ACCEL_DLPF_41 :: u8 where "MPU9250_ACCEL_DLPF_41 = 0x03"
definition MPU9250_ACCEL_DLPF_20 :: u8 where "MPU9250_ACCEL_DLPF_20 = 0x04"
definition MPU9250_ACCEL_DLPF_10 :: u8 where "MPU9250_ACCEL_DLPF_10 = 0x05"
definition MPU9250_ACCEL_DLPF_5 :: u8 where "MPU9250_ACCEL_DLPF_5 = 0x06"
definition MPU9250_GYRO_CONFIG :: u8 where "MPU9250_GYRO_CONFIG = 0x1B"
definition MPU9250_GYRO_FS_SEL_250DPS :: u8 where "MPU9250_GYRO_FS_SEL_250DPS = 0x00"
definition MPU9250_GYRO_FS_SEL_500DPS :: u8 where "MPU9250_GYRO_FS_SEL_500DPS = 0x08"
definition MPU9250_GYRO_FS_SEL_1000DPS :: u8 where "MPU9250_GYRO_FS_SEL_1000DPS = 0x10"
definition MPU9250_GYRO_FS_SEL_2000DPS :: u8 where "MPU9250_GYRO_FS_SEL_2000DPS = 0x18"
definition MPU9250_CONFIG :: u8 where "MPU9250_CONFIG = 0x1A"
definition MPU9250_GYRO_DLPF_184 :: u8 where "MPU9250_GYRO_DLPF_184 = 0x01"
definition MPU9250_GYRO_DLPF_92 :: u8 where "MPU9250_GYRO_DLPF_92 = 0x02"
definition MPU9250_GYRO_DLPF_41 :: u8 where "MPU9250_GYRO_DLPF_41 = 0x03"
definition MPU9250_GYRO_DLPF_20 :: u8 where "MPU9250_GYRO_DLPF_20 = 0x04"
definition MPU9250_GYRO_DLPF_10 :: u8 where "MPU9250_GYRO_DLPF_10 = 0x05"
definition MPU9250_GYRO_DLPF_5 :: u8 where "MPU9250_GYRO_DLPF_5 = 0x06"
definition MPU9250_SMPDIV :: u8 where "MPU9250_SMPDIV = 0x19"
definition MPU9250_INT_PIN_CFG :: u8 where "MPU9250_INT_PIN_CFG = 0x37"
definition MPU9250_INT_ENABLE :: u8 where "MPU9250_INT_ENABLE = 0x38"
definition MPU9250_PWR_MGMNT_1 :: u8 where "MPU9250_PWR_MGMNT_1 = 0x6B"
definition MPU9250_CLOCK_SEL_PLL :: u8 where "MPU9250_CLOCK_SEL_PLL = 0x01"
definition MPU9250_G :: real where "MPU9250_G = 9.807"

record MPU9250 =
  address :: int
  accelScale :: real
  gyroScale :: real
  Wire :: bus

definition MPU9250_writeRegister :: "u8 \<Rightarrow> u8 \<Rightarrow> MPU9250 \<Rightarrow> MPU9250" where
  "MPU9250_writeRegister subAddress data s = s\<lparr>Wire := snd (imu_WriteRegister subAddress data (Wire s))\<rparr>"

definition MPU9250_begin :: "string \<Rightarrow> string \<Rightarrow> MPU9250 \<Rightarrow> MPU9250" where
  "MPU9250_begin accelRange gyroRange s =
     (let s0 = MPU9250_writeRegister MPU9250_PWR_MGMNT_1 MPU9250_CLOCK_SEL_PLL s;
          s1 = (if accelRange = ''2G''
                then (MPU9250_writeRegister MPU9250_ACCEL_CONFIG MPU9250_ACCEL_FS_SEL_2G s0)
                       \<lparr>accelScale := MPU9250_G * 2.0 / 32767.5\<rparr> else s0);
          s2 = (if accelRange = ''4G''
                then (MPU9250_writeRegister MPU9250_ACCEL_CONFIG MPU9250_ACCEL_FS_SEL_4G s1)
                       \<lparr>accelScale := MPU9250_G * 4.0 / 32767.5\<rparr> else s1);
          s3 = (if accelRange = ''8G''
                then (MPU9250_writeRegister MPU9250_ACCEL_CONFIG MPU9250_ACCEL_FS_SEL_8G s2)
                       \<lparr>accelScale := MPU9250_G * 8.0 / 32767.5\<rparr> else s2);
          s4 = (if accelRange = ''16G''
                then (MPU9250_writeRegister MPU9250_ACCEL_CONFIG MPU9250_ACCEL_FS_SEL_16G s3)
                       \<lparr>accelScale := MPU9250_G * 16.0 / 32767.5\<rparr> else s3);
          s5 = (if gyroRange = ''250DPS''
                then (MPU9250_writeRegister MPU9250_GYRO_CONFIG MPU9250_GYRO_FS_SEL_250DPS s4)
                       \<lparr>gyroScale := 250.0 / 32767.5\<rparr> else s4);
          s6 = (if gyroRange = ''500DPS''
                then (MPU9250_writeRegister MPU9250_GYRO_CONFIG MPU9250_GYRO_FS_SEL_500DPS s5)
                       \<lparr>gyroScale := 500.0 / 32767.5\<rparr> else s5);
          s7 = (if gyroRange = ''1000DPS''
                then (MPU9250_writeRegister MPU9250_GYRO_CONFIG MPU9250_GYRO_FS_SEL_1000DPS s6)
                       \<lparr>gyroScale := 1000.0 / 32767.5\<rparr> else s6);
          s8 = (if gyroRange = ''2000DPS''
                then (MPU9250_writeRegister MPU9250_GYRO_CONFIG MPU9250_GYRO_FS_SEL_2000DPS s7)
                       \<lparr>gyroScale := 2000.0 / 32767.5\<rparr> else s7)
      in s8)"

text \<open>
  \<open>SRD = ISR / frequency - 1\<close>: both operands are promoted to \<open>int\<close>, the quotient truncates
  (the operands are not negative), and the assignment to the \<open>uint8_t\<close> keeps the low eight
  bits. The division has no guard in the source; the divisor zero, where C++ leaves the
  behaviour undefined, is the error of the model. It is reached after the filter writes.
\<close>

datatype error = DivisionByZero

definition MPU9250_setFilt :: "string \<Rightarrow> u8 \<Rightarrow> MPU9250 \<Rightarrow> error + MPU9250" where
  "MPU9250_setFilt bandwidth frequency s =
     (let ISR = (1000 :: int);
          s1 = (if bandwidth = ''184HZ''
                then MPU9250_writeRegister MPU9250_CONFIG MPU9250_GYRO_DLPF_184
                       (MPU9250_writeRegister MPU9250_ACCEL_CONFIG2 MPU9250_ACCEL_DLPF_184 s) else s);
          s2 = (if bandwidth = ''92HZ''
                then MPU9250_writeRegister MPU9250_CONFIG MPU9250_GYRO_DLPF_92
                       (MPU9250_writeRegister MPU9250_ACCEL_CONFIG2 MPU9250_ACCEL_DLPF_92 s1) else s1);
          s3 = (if bandwidth = ''41HZ''
                then MPU9250_writeRegister MPU9250_CONFIG MPU9250_GYRO_DLPF_41
                       (MPU9250_writeRegister MPU9250_ACCEL_CONFIG2 MPU9250_ACCEL_DLPF_41 s2) else s2);
          s4 = (if bandwidth = ''20HZ''
                then MPU9250_writeRegister MPU9250_CONFIG MPU9250_GYRO_DLPF_20
                       (MPU9250_writeRegister MPU9250_ACCEL_CONFIG2 MPU9250_ACCEL_DLPF_20 s3) else s3);
          s5 = (if bandwidth = ''10HZ''
                then MPU9250_writeRegister MPU9250_CONFIG MPU9250_GYRO_DLPF_10
                       (MPU9250_writeRegister MPU9250_ACCEL_CONFIG2 MPU9250_ACCEL_DLPF_10 s4) else s4);
          s6 = (if bandwidth = ''5HZ''
                then MPU9250_writeRegister MPU9250_CONFIG MPU9250_GYRO_DLPF_5
                       (MPU9250_writeRegister MPU9250_ACCEL_CONFIG2 MPU9250_ACCEL_DLPF_5 s5) else s5)
      in if frequency = 0 then Inl DivisionByZero
         else
           (let SRD = (word_of_int (ISR div uint frequency - 1) :: u8);
                s7 = MPU9250_writeRegister MPU9250_SMPDIV SRD s6;
                s8 = MPU9250_writeRegister MPU9250_INT_PIN_CFG 0x00 s7;
                s9 = MPU9250_writeRegister MPU9250_INT_ENABLE 0x01 s8
            in Inr s9))"

section \<open>What the claims speak of\<close>



text \<open>
  A run of checked transactions, as a property of the bus before and after: the bus has
  issued at least one and at most \<open>n\<close> transactions more; all of them but the last were
  acknowledged writes; the last one satisfies \<open>fin\<close> when the run succeeded and was not
  acknowledged when it failed.
\<close>

definition acked :: "transaction \<Rightarrow> bool" where
  "acked t = fst (snd t)"

definition run_of :: "bus \<Rightarrow> bus \<Rightarrow> nat \<Rightarrow> bool \<Rightarrow> (transaction \<Rightarrow> bool) \<Rightarrow> bool" where
  "run_of b b' n ok fin \<longleftrightarrow>
     (\<exists>ts. issued b' = issued b @ ts \<and> ts \<noteq> [] \<and> length ts \<le> n
        \<and> list_all acked (butlast ts) \<and> list_all is_write (butlast ts)
        \<and> (if ok then fin (last ts) else \<not> acked (last ts)))"


section \<open>Sample instances\<close>

text \<open>
  Concrete inputs for evaluating the model. The two header instances follow the register maps
  of the ICM-20649 and the ICM-20948 as far as the drivers use them; a constant its header does
  not declare is zero. A fresh driver object has every member zero and a bus that has issued
  nothing and is going to give the listed replies. The
  general theorems do not depend on these values.
\<close>

definition Icm20649_h :: hdr where
  "Icm20649_h =
     \<lparr>USER_CTRL = 0x03, I2C_IF_DIS = 0x10, PWR_MGMT_1 = 0x06, CLKSEL_AUTO = 0x01,
      WHO_AM_I = 0x00, WHOAMI_ICM20649 = 0xE1, ODR_ALIGN_EN = 0x09, ALIGN_ODR = 0x01,
      INT_ENABLE_1 = 0x11, INT_RAW_RDY_EN = 0x01, INT_DISABLE = 0x00, ACCEL_CONFIG = 0x14,
      GYRO_CONFIG_1 = 0x01, ACCEL_SMPLRT_DIV_2 = 0x11, GYRO_SMPLRT_DIV = 0x00, H_RESET = 0x80,
      INT_STATUS_1 = 0x1A, RAW_DATA_RDY_INT = 0x01, ACCEL_XOUT_H = 0x2D, REG_BANK_SEL = 0x7F,
      G_MPS2 = 9.80665, TEMP_SCALE = 333.87, DEG2RAD = 0.017453, BANK_0 = 0, BANK_2 = 0,
      BANK_3 = 0, USER_CTRL_I2C_IF_DIS = 0, USER_CTRL_I2C_MST_EN = 0, PWR_MGMT_1_CLKSEL_AUTO = 0,
      PWR_MGMT_1_RESET = 0, I2C_MST_CTRL = 0, I2C_MST_CTRL_400_KHZ_CLK = 0,
      ODR_ALIGN_EN_ALIGN_ENABLE = 0, INT_ENABLE_1_INT_ENABLE = 0, INT_ENABLE_1_INT_DISABLE = 0,
      TEMP_CONFIG = 0, I2C_SLV0_ADDR = 0, I2C_SLV0_ADDR_READ = 0, I2C_SLV0_REG = 0,
      I2C_SLV0_D0 = 0, I2C_SLV0_CTRL = 0, I2C_SLV0_CTRL_EN = 0, EXT_SLV_SENS_DATA_00 = 0,
      AK09916_I2C_ADDR = 0, AK09916_WIA2 = 0, WHOAMI_AK09916 = 0, AK09916_ST1 = 0,
      AK09916_ST1_DRDY = 0, AK09916_ST2_HOFL = 0, AK09916_CNTL2 = 0,
      AK09916_CNTL2_CONT_MEAS_MODE1 = 0, AK09916_CNTL3 = 0, AK09916_CNTL3_SRST = 0,
      MAG_SCALE = 0, ACCEL_RANGE_2G = 0, ACCEL_RANGE_4G = 0, ACCEL_RANGE_8G = 1,
      ACCEL_RANGE_16G = 2, ACCEL_RANGE_30G = 3, GYRO_RANGE_250DPS = 0, GYRO_RANGE_500DPS = 0,
      GYRO_RANGE_1000DPS = 1, GYRO_RANGE_2000DPS = 2, GYRO_RANGE_4000DPS = 3,
      ACCEL_DLPF_BANDWIDTH_246HZ = 1, ACCEL_DLPF_BANDWIDTH_111HZ = 2,
      ACCEL_DLPF_BANDWIDTH_50HZ = 3, ACCEL_DLPF_BANDWIDTH_23HZ = 4,
      ACCEL_DLPF_BANDWIDTH_11HZ = 5, ACCEL_DLPF_BANDWIDTH_5HZ = 6,
      ACCEL_DLPF_BANDWIDTH_473HZ = 7, GYRO_DLPF_BANDWIDTH_196HZ = 0,
      GYRO_DLPF_BANDWIDTH_151HZ = 1, GYRO_DLPF_BANDWIDTH_119HZ = 2, GYRO_DLPF_BANDWIDTH_51HZ = 3,
      GYRO_DLPF_BANDWIDTH_23HZ = 4, GYRO_DLPF_BANDWIDTH_11HZ = 5, GYRO_DLPF_BANDWIDTH_5HZ = 6,
      GYRO_DLPF_BANDWIDTH_361HZ = 7, TEMP_DLPF_BANDWIDTH_7932HZ = 0,
      TEMP_DLPF_BANDWIDTH_217HZ = 0, TEMP_DLPF_BANDWIDTH_123HZ = 0, TEMP_DLPF_BANDWIDTH_65HZ = 0,
      TEMP_DLPF_BANDWIDTH_34HZ = 0, TEMP_DLPF_BANDWIDTH_17HZ = 0, TEMP_DLPF_BANDWIDTH_8HZ = 0,
      sizeof_data_buf = 15, sizeof_mag_data = 0\<rparr>"

definition Icm20948_h :: hdr where
  "Icm20948_h =
     \<lparr>USER_CTRL = 0x03, I2C_IF_DIS = 0, PWR_MGMT_1 = 0x06, CLKSEL_AUTO = 0,
      WHO_AM_I = 0x00, WHOAMI_ICM20649 = 0xEA, ODR_ALIGN_EN = 0x09, ALIGN_ODR = 0,
      INT_ENABLE_1 = 0x11, INT_RAW_RDY_EN = 0, INT_DISABLE = 0, ACCEL_CONFIG = 0x14,
      GYRO_CONFIG_1 = 0x01, ACCEL_SMPLRT_DIV_2 = 0x11, GYRO_SMPLRT_DIV = 0x00, H_RESET = 0,
      INT_STATUS_1 = 0x1A, RAW_DATA_RDY_INT = 0x01, ACCEL_XOUT_H = 0x2D, REG_BANK_SEL = 0x7F,
      G_MPS2 = 9.80665, TEMP_SCALE = 333.87, DEG2RAD = 0.017453, BANK_0 = 0, BANK_2 = 2,
      BANK_3 = 3, USER_CTRL_I2C_IF_DIS = 0x10, USER_CTRL_I2C_MST_EN = 0x20,
      PWR_MGMT_1_CLKSEL_AUTO = 0x01, PWR_MGMT_1_RESET = 0x80, I2C_MST_CTRL = 0x01,
      I2C_MST_CTRL_400_KHZ_CLK = 0x07, ODR_ALIGN_EN_ALIGN_ENABLE = 0x01,
      INT_ENABLE_1_INT_ENABLE = 0x01, INT_ENABLE_1_INT_DISABLE = 0x00, TEMP_CONFIG = 0x53,
      I2C_SLV0_ADDR = 0x03, I2C_SLV0_ADDR_READ = 0x80, I2C_SLV0_REG = 0x04, I2C_SLV0_D0 = 0x06,
      I2C_SLV0_CTRL = 0x05, I2C_SLV0_CTRL_EN = 0x80, EXT_SLV_SENS_DATA_00 = 0x3B,
      AK09916_I2C_ADDR = 0x0C, AK09916_WIA2 = 0x01, WHOAMI_AK09916 = 0x09, AK09916_ST1 = 0x10,
      AK09916_ST1_DRDY = 0x01, AK09916_ST2_HOFL = 0x08, AK09916_CNTL2 = 0x31,
      AK09916_CNTL2_CONT_MEAS_MODE1 = 0x02, AK09916_CNTL3 = 0x32, AK09916_CNTL3_SRST = 0x01,
      MAG_SCALE = 0.15, ACCEL_RANGE_2G = 0, ACCEL_RANGE_4G = 1, ACCEL_RANGE_8G = 2,
      ACCEL_RANGE_16G = 3, ACCEL_RANGE_30G = 0, GYRO_RANGE_250DPS = 0, GYRO_RANGE_500DPS = 1,
      GYRO_RANGE_1000DPS = 2, GYRO_RANGE_2000DPS = 3, GYRO_RANGE_4000DPS = 0,
      ACCEL_DLPF_BANDWIDTH_246HZ = 1, ACCEL_DLPF_BANDWIDTH_111HZ = 2,
      ACCEL_DLPF_BANDWIDTH_50HZ = 3, ACCEL_DLPF_BANDWIDTH_23HZ = 4,
      ACCEL_DLPF_BANDWIDTH_11HZ = 5, ACCEL_DLPF_BANDWIDTH_5HZ = 6,
      ACCEL_DLPF_BANDWIDTH_473HZ = 7, GYRO_DLPF_BANDWIDTH_196HZ = 0,
      GYRO_DLPF_BANDWIDTH_151HZ = 1, GYRO_DLPF_BANDWIDTH_119HZ = 2, GYRO_DLPF_BANDWIDTH_51HZ = 3,
      GYRO_DLPF_BANDWIDTH_23HZ = 4, GYRO_DLPF_BANDWIDTH_11HZ = 5, GYRO_DLPF_BANDWIDTH_5HZ = 6,
      GYRO_DLPF_BANDWIDTH_361HZ = 7, TEMP_DLPF_BANDWIDTH_7932HZ = 0,
      TEMP_DLPF_BANDWIDTH_217HZ = 1, TEMP_DLPF_BANDWIDTH_123HZ = 2, TEMP_DLPF_BANDWIDTH_65HZ = 3,
      TEMP_DLPF_BANDWIDTH_34HZ = 4, TEMP_DLPF_BANDWIDTH_17HZ = 5, TEMP_DLPF_BANDWIDTH_8HZ = 6,
      sizeof_data_buf = 23, sizeof_mag_data = 8\<rparr>"

definition fresh_bus :: "reply list \<Rightarrow> bus" where
  "fresh_bus rs = \<lparr>pending = rs, issued = []\<rparr>"

definition fresh_Icm20649 :: "reply list \<Rightarrow> Icm20649" where
  "fresh_Icm20649 rs =
     \<lparr>imu = fresh_bus rs, iface = I2C, current_bank = 0, who_am_i = 0,
      requested_accel_range = 0, requested_accel_scale = 0, accel_range = 0, accel_scale = 0,
      requested_gyro_range = 0, requested_gyro_scale = 0, gyro_range = 0, gyro_scale = 0,
      srd = 0, accel_requested_dlpf = 0, accel_dlpf_bandwidth = 0,
      gyro_requested_dlpf = 0, gyro_dlpf_bandwidth = 0,
      data_buf = (\<lambda>_. 0), new_imu_data = False,
      accel_cnts = (\<lambda>_. 0), gyro_cnts = (\<lambda>_. 0), temp_cnts = 0,
      accel = (\<lambda>_. 0), gyro = (\<lambda>_. 0), temp = 0\<rparr>"

definition fresh_Icm20948 :: "reply list \<Rightarrow> Icm20948" where
  "fresh_Icm20948 rs =
     \<lparr>imu = fresh_bus rs, iface = I2C, current_bank = 0, who_am_i = 0,
      requested_accel_range = 0, requested_accel_scale = 0, accel_range = 0, accel_scale = 0,
      requested_gyro_range = 0, requested_gyro_scale = 0, gyro_range = 0, gyro_scale = 0,
      srd = 0, accel_requested_dlpf = 0, accel_dlpf_bandwidth = 0,
      gyro_requested_dlpf = 0, gyro_dlpf_bandwidth = 0,
      data_buf = (\<lambda>_. 0), new_imu_data = False,
      accel_cnts = (\<lambda>_. 0), gyro_cnts = (\<lambda>_. 0), temp_cnts = 0,
      accel = (\<lambda>_. 0), gyro = (\<lambda>_. 0), temp = 0,
      temp_requested_dlpf = 0, temp_dlpf_bandwidth = 0, mag_data = (\<lambda>_. 0),
      new_mag_data = False, mag_sensor_overflow = False,
      mag_cnts = (\<lambda>_. 0), mag = (\<lambda>_. 0)\<rparr>"

definition fresh_MPU9250 :: "reply list \<Rightarrow> MPU9250" where
  "fresh_MPU9250 rs = \<lparr>address = 0x68, accelScale = 0, gyroScale = 0, Wire = fresh_bus rs\<rparr>"

definition mag_overflow_input :: Icm20948 where
  "mag_overflow_input =
     (fresh_Icm20948
        [(True, [0x01]),
         (True, [0, 0, 0, 0, 0, 0, 0, 0, 0, 0, 0, 0, 0, 0, 0x01, 1, 0, 2, 0, 3, 0, 0, 0x08])])
     \<lparr>mag := (\<lambda>_. 0)(0 := 10, 1 := 20, 2 := 30)\<rparr>"

definition range_30G_input :: Icm20649 where
  "range_30G_input = fresh_Icm20649 [(True, []), (True, [0x00]), (True, [])]"

definition invalid_range_input :: Icm20649 where
  "invalid_range_input = fresh_Icm20649 [(True, [])]"

definition gyro_range_input48 :: Icm20948 where
  "gyro_range_input48 =
     fresh_Icm20948 [(True, []), (True, [0x00]), (True, []), (True, [0x00]), (True, [])]"

definition gyro_range_input49 :: Icm20649 where
  "gyro_range_input49 =
     fresh_Icm20649 [(True, []), (True, [0x00]), (True, []), (True, [0x00]), (True, [])]"

definition burst_failure_input48 :: Icm20948 where
  "burst_failure_input48 =
     (fresh_Icm20948 [(True, [0x01]), (False, [0x12, 0x34])])\<lparr>accel_scale := 16 / 32767.5\<rparr>"

definition burst_failure_input49 :: Icm20649 where
  "burst_failure_input49 =
     (fresh_Icm20649 [(True, [0x01]), (False, [0x12, 0x34])])\<lparr>accel_scale := 32 / 32767.5\<rparr>"




section \<open>Facts about the transport and the register access\<close>

lemmas eval_defs =
  fresh_bus_def fresh_Icm20948_def fresh_Icm20649_def fresh_MPU9250_def
  first_reply_def next_reply_def fill_def store_def imu_WriteRegister_def imu_ReadRegisters_def
  new_transactions_def Let_def

lemmas Icm20649_eval =
  Icm20649_SetBank_def Icm20649_WriteRegister_def Icm20649_ReadRegisters_def
  Icm20649_ConfigAccelRange_def Icm20649_ConfigAccelRange_set_def
  Icm20649_ConfigGyroRange_def Icm20649_ConfigGyroRange_set_def
  Icm20649_h_def

lemmas Icm20948_eval =
  Icm20948_WriteRegister_def Icm20948_ReadRegisters_def
  Icm20948_ConfigAccelRange_def Icm20948_ConfigAccelRange_set_def
  Icm20948_ConfigGyroRange_def Icm20948_ConfigGyroRange_set_def
  Icm20948_h_def

lemma uint_u8_of_int: "uint (word_of_int x :: u8) = x mod 256"
  by (simp add: uint_word_of_int_eq take_bit_eq_mod)






lemma MPU9250_writeRegister_issued:
  "issued (Wire (MPU9250_writeRegister a d s)) =
     issued (Wire s) @ [(BusWrite a d, fst (next_reply (Wire s)), [])]"
  by (simp add: MPU9250_writeRegister_def imu_WriteRegister_def Let_def)

lemma Icm20649_SetBank_cached: "Icm20649_SetBank c (current_bank s) s = (True, s)"
  by (simp add: Icm20649_SetBank_def)

lemma Icm20649_SetBank_switch:
  "bank \<noteq> current_bank s \<Longrightarrow> Icm20649_SetBank c bank s = (ok, s') \<Longrightarrow>
     ok = fst (next_reply (imu s)) \<and>
     new_transactions (imu s) (imu s') = [(BusWrite (REG_BANK_SEL c) (push_bit 4 bank), ok, [])]
     \<and> current_bank s' = (if ok then bank else current_bank s)"
  by (auto simp: Icm20649_SetBank_def Icm20649_WriteRegister_def imu_WriteRegister_def Let_def
        new_transactions_def split: if_splits)

lemma Icm20649_SetBank_transactions:
  "new_transactions (imu s) (imu (snd (Icm20649_SetBank c bank s))) =
     (if bank = current_bank s then []
      else [(BusWrite (REG_BANK_SEL c) (push_bit 4 bank), fst (next_reply (imu s)), [])])"
  by (simp add: Icm20649_SetBank_def Icm20649_WriteRegister_def imu_WriteRegister_def Let_def
        new_transactions_def)


lemma Icm20649_SetBank_again:
  "Icm20649_SetBank c bank s = (True, s') \<Longrightarrow> Icm20649_SetBank c bank s' = (True, s')"
  by (auto simp: Icm20649_SetBank_def Icm20649_WriteRegister_def imu_WriteRegister_def Let_def
        split: if_splits)

lemma Icm20948_WriteRegister_cached:
  "Icm20948_WriteRegister c (current_bank s) reg data s = (ok, s') \<Longrightarrow>
     new_transactions (imu s) (imu s') = [(BusWrite reg data, ok, [])]
     \<and> current_bank s' = current_bank s"
  by (auto simp: Icm20948_WriteRegister_def imu_WriteRegister_def Let_def
        new_transactions_def split: if_splits)

lemma Icm20948_WriteRegister_switch:
  "bank \<noteq> current_bank s \<Longrightarrow> Icm20948_WriteRegister c bank reg data s = (ok, s') \<Longrightarrow>
     new_transactions (imu s) (imu s') =
       (BusWrite (REG_BANK_SEL c) (push_bit 4 bank), fst (next_reply (imu s)), [])
       # (if fst (next_reply (imu s)) then [(BusWrite reg data, ok, [])] else [])
     \<and> current_bank s' = (if fst (next_reply (imu s)) then bank else current_bank s)
     \<and> (ok \<longrightarrow> fst (next_reply (imu s)))"
  by (auto simp: Icm20948_WriteRegister_def imu_WriteRegister_def Let_def
        new_transactions_def split: if_splits)

lemma Icm20948_ReadRegisters_cached:
  "Icm20948_ReadRegisters c (current_bank s) reg n s = (ok, bs, s') \<Longrightarrow>
     new_transactions (imu s) (imu s') = [(BusRead reg (unat n), ok, bs)]
     \<and> current_bank s' = current_bank s"
  by (auto simp: Icm20948_ReadRegisters_def imu_ReadRegisters_def Let_def
        new_transactions_def split: if_splits)

lemma Icm20948_ReadRegisters_switch:
  "bank \<noteq> current_bank s \<Longrightarrow> Icm20948_ReadRegisters c bank reg n s = (ok, bs, s') \<Longrightarrow>
     new_transactions (imu s) (imu s') =
       (BusWrite (REG_BANK_SEL c) (push_bit 4 bank), fst (next_reply (imu s)), [])
       # (if fst (next_reply (imu s)) then [(BusRead reg (unat n), ok, bs)] else [])
     \<and> current_bank s' = (if fst (next_reply (imu s)) then bank else current_bank s)
     \<and> (ok \<longrightarrow> fst (next_reply (imu s)))"
  by (auto simp: Icm20948_ReadRegisters_def imu_ReadRegisters_def imu_WriteRegister_def Let_def
        new_transactions_def split: if_splits)

subsection \<open>Runs of checked transactions\<close>




lemma run_of_failed: "run_of b b' n False fin \<Longrightarrow> run_of b b' n False fin'"
  by (auto simp: run_of_def)











subsection \<open>What the register access leaves alone\<close>

lemma Icm20649_WriteRegister_keeps:
  "current_bank (snd (Icm20649_WriteRegister reg d s)) = current_bank s"
  "iface (snd (Icm20649_WriteRegister reg d s)) = iface s"
  "who_am_i (snd (Icm20649_WriteRegister reg d s)) = who_am_i s"
  "requested_accel_range (snd (Icm20649_WriteRegister reg d s)) = requested_accel_range s"
  "requested_accel_scale (snd (Icm20649_WriteRegister reg d s)) = requested_accel_scale s"
  "accel_range (snd (Icm20649_WriteRegister reg d s)) = accel_range s"
  "accel_scale (snd (Icm20649_WriteRegister reg d s)) = accel_scale s"
  "requested_gyro_range (snd (Icm20649_WriteRegister reg d s)) = requested_gyro_range s"
  "requested_gyro_scale (snd (Icm20649_WriteRegister reg d s)) = requested_gyro_scale s"
  "gyro_range (snd (Icm20649_WriteRegister reg d s)) = gyro_range s"
  "gyro_scale (snd (Icm20649_WriteRegister reg d s)) = gyro_scale s"
  "srd (snd (Icm20649_WriteRegister reg d s)) = srd s"
  "accel_requested_dlpf (snd (Icm20649_WriteRegister reg d s)) = accel_requested_dlpf s"
  "accel_dlpf_bandwidth (snd (Icm20649_WriteRegister reg d s)) = accel_dlpf_bandwidth s"
  "gyro_requested_dlpf (snd (Icm20649_WriteRegister reg d s)) = gyro_requested_dlpf s"
  "gyro_dlpf_bandwidth (snd (Icm20649_WriteRegister reg d s)) = gyro_dlpf_bandwidth s"
  "data_buf (snd (Icm20649_WriteRegister reg d s)) = data_buf s"
  "new_imu_data (snd (Icm20649_WriteRegister reg d s)) = new_imu_data s"
  "accel_cnts (snd (Icm20649_WriteRegister reg d s)) = accel_cnts s"
  "gyro_cnts (snd (Icm20649_WriteRegister reg d s)) = gyro_cnts s"
  "temp_cnts (snd (Icm20649_WriteRegister reg d s)) = temp_cnts s"
  "accel (snd (Icm20649_WriteRegister reg d s)) = accel s"
  "gyro (snd (Icm20649_WriteRegister reg d s)) = gyro s"
  "temp (snd (Icm20649_WriteRegister reg d s)) = temp s"
  by (simp_all add: Icm20649_WriteRegister_def split: prod.splits)

lemma Icm20649_ReadRegisters_keeps:
  "current_bank (snd (snd (Icm20649_ReadRegisters reg n s))) = current_bank s"
  "iface (snd (snd (Icm20649_ReadRegisters reg n s))) = iface s"
  "who_am_i (snd (snd (Icm20649_ReadRegisters reg n s))) = who_am_i s"
  "requested_accel_range (snd (snd (Icm20649_ReadRegisters reg n s))) = requested_accel_range s"
  "requested_accel_scale (snd (snd (Icm20649_ReadRegisters reg n s))) = requested_accel_scale s"
  "accel_range (snd (snd (Icm20649_ReadRegisters reg n s))) = accel_range s"
  "accel_scale (snd (snd (Icm20649_ReadRegisters reg n s))) = accel_scale s"
  "requested_gyro_range (snd (snd (Icm20649_ReadRegisters reg n s))) = requested_gyro_range s"
  "requested_gyro_scale (snd (snd (Icm20649_ReadRegisters reg n s))) = requested_gyro_scale s"
  "gyro_range (snd (snd (Icm20649_ReadRegisters reg n s))) = gyro_range s"
  "gyro_scale (snd (snd (Icm20649_ReadRegisters reg n s))) = gyro_scale s"
  "srd (snd (snd (Icm20649_ReadRegisters reg n s))) = srd s"
  "accel_requested_dlpf (snd (snd (Icm20649_ReadRegisters reg n s))) = accel_requested_dlpf s"
  "accel_dlpf_bandwidth (snd (snd (Icm20649_ReadRegisters reg n s))) = accel_dlpf_bandwidth s"
  "gyro_requested_dlpf (snd (snd (Icm20649_ReadRegisters reg n s))) = gyro_requested_dlpf s"
  "gyro_dlpf_bandwidth (snd (snd (Icm20649_ReadRegisters reg n s))) = gyro_dlpf_bandwidth s"
  "data_buf (snd (snd (Icm20649_ReadRegisters reg n s))) = data_buf s"
  "new_imu_data (snd (snd (Icm20649_ReadRegisters reg n s))) = new_imu_data s"
  "accel_cnts (snd (snd (Icm20649_ReadRegisters reg n s))) = accel_cnts s"
  "gyro_cnts (snd (snd (Icm20649_ReadRegisters reg n s))) = gyro_cnts s"
  "temp_cnts (snd (snd (Icm20649_ReadRegisters reg n s))) = temp_cnts s"
  "accel (snd (snd (Icm20649_ReadRegisters reg n s))) = accel s"
  "gyro (snd (snd (Icm20649_ReadRegisters reg n s))) = gyro s"
  "temp (snd (snd (Icm20649_ReadRegisters reg n s))) = temp s"
  by (simp_all add: Icm20649_ReadRegisters_def split: prod.splits)

lemma Icm20649_SetBank_keeps:
  "iface (snd (Icm20649_SetBank c bank s)) = iface s"
  "who_am_i (snd (Icm20649_SetBank c bank s)) = who_am_i s"
  "requested_accel_range (snd (Icm20649_SetBank c bank s)) = requested_accel_range s"
  "requested_accel_scale (snd (Icm20649_SetBank c bank s)) = requested_accel_scale s"
  "accel_range (snd (Icm20649_SetBank c bank s)) = accel_range s"
  "accel_scale (snd (Icm20649_SetBank c bank s)) = accel_scale s"
  "requested_gyro_range (snd (Icm20649_SetBank c bank s)) = requested_gyro_range s"
  "requested_gyro_scale (snd (Icm20649_SetBank c bank s)) = requested_gyro_scale s"
  "gyro_range (snd (Icm20649_SetBank c bank s)) = gyro_range s"
  "gyro_scale (snd (Icm20649_SetBank c bank s)) = gyro_scale s"
  "srd (snd (Icm20649_SetBank c bank s)) = srd s"
  "accel_requested_dlpf (snd (Icm20649_SetBank c bank s)) = accel_requested_dlpf s"
  "accel_dlpf_bandwidth (snd (Icm20649_SetBank c bank s)) = accel_dlpf_bandwidth s"
  "gyro_requested_dlpf (snd (Icm20649_SetBank c bank s)) = gyro_requested_dlpf s"
  "gyro_dlpf_bandwidth (snd (Icm20649_SetBank c bank s)) = gyro_dlpf_bandwidth s"
  "data_buf (snd (Icm20649_SetBank c bank s)) = data_buf s"
  "new_imu_data (snd (Icm20649_SetBank c bank s)) = new_imu_data s"
  "accel_cnts (snd (Icm20649_SetBank c bank s)) = accel_cnts s"
  "gyro_cnts (snd (Icm20649_SetBank c bank s)) = gyro_cnts s"
  "temp_cnts (snd (Icm20649_SetBank c bank s)) = temp_cnts s"
  "accel (snd (Icm20649_SetBank c bank s)) = accel s"
  "gyro (snd (Icm20649_SetBank c bank s)) = gyro s"
  "temp (snd (Icm20649_SetBank c bank s)) = temp s"
  by (simp_all add: Icm20649_SetBank_def case_prod_beta Icm20649_WriteRegister_keeps)

lemma Icm20948_WriteRegister_keeps:
  "iface (snd (Icm20948_WriteRegister c bank reg d s)) = iface s"
  "who_am_i (snd (Icm20948_WriteRegister c bank reg d s)) = who_am_i s"
  "requested_accel_range (snd (Icm20948_WriteRegister c bank reg d s)) = requested_accel_range s"
  "requested_accel_scale (snd (Icm20948_WriteRegister c bank reg d s)) = requested_accel_scale s"
  "accel_range (snd (Icm20948_WriteRegister c bank reg d s)) = accel_range s"
  "accel_scale (snd (Icm20948_WriteRegister c bank reg d s)) = accel_scale s"
  "requested_gyro_range (snd (Icm20948_WriteRegister c bank reg d s)) = requested_gyro_range s"
  "requested_gyro_scale (snd (Icm20948_WriteRegister c bank reg d s)) = requested_gyro_scale s"
  "gyro_range (snd (Icm20948_WriteRegister c bank reg d s)) = gyro_range s"
  "gyro_scale (snd (Icm20948_WriteRegister c bank reg d s)) = gyro_scale s"
  "srd (snd (Icm20948_WriteRegister c bank reg d s)) = srd s"
  "accel_requested_dlpf (snd (Icm20948_WriteRegister c bank reg d s)) = accel_requested_dlpf s"
  "accel_dlpf_bandwidth (snd (Icm20948_WriteRegister c bank reg d s)) = accel_dlpf_bandwidth s"
  "gyro_requested_dlpf (snd (Icm20948_WriteRegister c bank reg d s)) = gyro_requested_dlpf s"
  "gyro_dlpf_bandwidth (snd (Icm20948_WriteRegister c bank reg d s)) = gyro_dlpf_bandwidth s"
  "data_buf (snd (Icm20948_WriteRegister c bank reg d s)) = data_buf s"
  "new_imu_data (snd (Icm20948_WriteRegister c bank reg d s)) = new_imu_data s"
  "accel_cnts (snd (Icm20948_WriteRegister c bank reg d s)) = accel_cnts s"
  "gyro_cnts (snd (Icm20948_WriteRegister c bank reg d s)) = gyro_cnts s"
  "temp_cnts (snd (Icm20948_WriteRegister c bank reg d s)) = temp_cnts s"
  "accel (snd (Icm20948_WriteRegister c bank reg d s)) = accel s"
  "gyro (snd (Icm20948_WriteRegister c bank reg d s)) = gyro s"
  "temp (snd (Icm20948_WriteRegister c bank reg d s)) = temp s"
  "temp_requested_dlpf (snd (Icm20948_WriteRegister c bank reg d s)) = temp_requested_dlpf s"
  "temp_dlpf_bandwidth (snd (Icm20948_WriteRegister c bank reg d s)) = temp_dlpf_bandwidth s"
  "mag_data (snd (Icm20948_WriteRegister c bank reg d s)) = mag_data s"
  "new_mag_data (snd (Icm20948_WriteRegister c bank reg d s)) = new_mag_data s"
  "mag_sensor_overflow (snd (Icm20948_WriteRegister c bank reg d s)) = mag_sensor_overflow s"
  "mag_cnts (snd (Icm20948_WriteRegister c bank reg d s)) = mag_cnts s"
  "mag (snd (Icm20948_WriteRegister c bank reg d s)) = mag s"
  by (simp_all add: Icm20948_WriteRegister_def split: prod.splits)

lemma Icm20948_ReadRegisters_keeps:
  "iface (snd (snd (Icm20948_ReadRegisters c bank reg n s))) = iface s"
  "who_am_i (snd (snd (Icm20948_ReadRegisters c bank reg n s))) = who_am_i s"
  "requested_accel_range (snd (snd (Icm20948_ReadRegisters c bank reg n s))) = requested_accel_range s"
  "requested_accel_scale (snd (snd (Icm20948_ReadRegisters c bank reg n s))) = requested_accel_scale s"
  "accel_range (snd (snd (Icm20948_ReadRegisters c bank reg n s))) = accel_range s"
  "accel_scale (snd (snd (Icm20948_ReadRegisters c bank reg n s))) = accel_scale s"
  "requested_gyro_range (snd (snd (Icm20948_ReadRegisters c bank reg n s))) = requested_gyro_range s"
  "requested_gyro_scale (snd (snd (Icm20948_ReadRegisters c bank reg n s))) = requested_gyro_scale s"
  "gyro_range (snd (snd (Icm20948_ReadRegisters c bank reg n s))) = gyro_range s"
  "gyro_scale (snd (snd (Icm20948_ReadRegisters c bank reg n s))) = gyro_scale s"
  "srd (snd (snd (Icm20948_ReadRegisters c bank reg n s))) = srd s"
  "accel_requested_dlpf (snd (snd (Icm20948_ReadRegisters c bank reg n s))) = accel_requested_dlpf s"
  "accel_dlpf_bandwidth (snd (snd (Icm20948_ReadRegisters c bank reg n s))) = accel_dlpf_bandwidth s"
  "gyro_requested_dlpf (snd (snd (Icm20948_ReadRegisters c bank reg n s))) = gyro_requested_dlpf s"
  "gyro_dlpf_bandwidth (snd (snd (Icm20948_ReadRegisters c bank reg n s))) = gyro_dlpf_bandwidth s"
  "data_buf (snd (snd (Icm20948_ReadRegisters c bank reg n s))) = data_buf s"
  "new_imu_data (snd (snd (Icm20948_ReadRegisters c bank reg n s))) = new_imu_data s"
  "accel_cnts (snd (snd (Icm20948_ReadRegisters c bank reg n s))) = accel_cnts s"
  "gyro_cnts (snd (snd (Icm20948_ReadRegisters c bank reg n s))) = gyro_cnts s"
  "temp_cnts (snd (snd (Icm20948_ReadRegisters c bank reg n s))) = temp_cnts s"
  "accel (snd (snd (Icm20948_ReadRegisters c bank reg n s))) = accel s"
  "gyro (snd (snd (Icm20948_ReadRegisters c bank reg n s))) = gyro s"
  "temp (snd (snd (Icm20948_ReadRegisters c bank reg n s))) = temp s"
  "temp_requested_dlpf (snd (snd (Icm20948_ReadRegisters c bank reg n s))) = temp_requested_dlpf s"
  "temp_dlpf_bandwidth (snd (snd (Icm20948_ReadRegisters c bank reg n s))) = temp_dlpf_bandwidth s"
  "mag_data (snd (snd (Icm20948_ReadRegisters c bank reg n s))) = mag_data s"
  "new_mag_data (snd (snd (Icm20948_ReadRegisters c bank reg n s))) = new_mag_data s"
  "mag_sensor_overflow (snd (snd (Icm20948_ReadRegisters c bank reg n s))) = mag_sensor_overflow s"
  "mag_cnts (snd (snd (Icm20948_ReadRegisters c bank reg n s))) = mag_cnts s"
  "mag (snd (snd (Icm20948_ReadRegisters c bank reg n s))) = mag s"
  by (simp_all add: Icm20948_ReadRegisters_def split: prod.splits)

lemma Icm20948_ReadAk09916Registers_keeps:
  "iface (snd (snd (Icm20948_ReadAk09916Registers c reg n s))) = iface s"
  "who_am_i (snd (snd (Icm20948_ReadAk09916Registers c reg n s))) = who_am_i s"
  "requested_accel_range (snd (snd (Icm20948_ReadAk09916Registers c reg n s))) = requested_accel_range s"
  "requested_accel_scale (snd (snd (Icm20948_ReadAk09916Registers c reg n s))) = requested_accel_scale s"
  "accel_range (snd (snd (Icm20948_ReadAk09916Registers c reg n s))) = accel_range s"
  "accel_scale (snd (snd (Icm20948_ReadAk09916Registers c reg n s))) = accel_scale s"
  "requested_gyro_range (snd (snd (Icm20948_ReadAk09916Registers c reg n s))) = requested_gyro_range s"
  "requested_gyro_scale (snd (snd (Icm20948_ReadAk09916Registers c reg n s))) = requested_gyro_scale s"
  "gyro_range (snd (snd (Icm20948_ReadAk09916Registers c reg n s))) = gyro_range s"
  "gyro_scale (snd (snd (Icm20948_ReadAk09916Registers c reg n s))) = gyro_scale s"
  "srd (snd (snd (Icm20948_ReadAk09916Registers c reg n s))) = srd s"
  "accel_requested_dlpf (snd (snd (Icm20948_ReadAk09916Registers c reg n s))) = accel_requested_dlpf s"
  "accel_dlpf_bandwidth (snd (snd (Icm20948_ReadAk09916Registers c reg n s))) = accel_dlpf_bandwidth s"
  "gyro_requested_dlpf (snd (snd (Icm20948_ReadAk09916Registers c reg n s))) = gyro_requested_dlpf s"
  "gyro_dlpf_bandwidth (snd (snd (Icm20948_ReadAk09916Registers c reg n s))) = gyro_dlpf_bandwidth s"
  "data_buf (snd (snd (Icm20948_ReadAk09916Registers c reg n s))) = data_buf s"
  "new_imu_data (snd (snd (Icm20948_ReadAk09916Registers c reg n s))) = new_imu_data s"
  "accel_cnts (snd (snd (Icm20948_ReadAk09916Registers c reg n s))) = accel_cnts s"
  "gyro_cnts (snd (snd (Icm20948_ReadAk09916Registers c reg n s))) = gyro_cnts s"
  "temp_cnts (snd (snd (Icm20948_ReadAk09916Registers c reg n s))) = temp_cnts s"
  "accel (snd (snd (Icm20948_ReadAk09916Registers c reg n s))) = accel s"
  "gyro (snd (snd (Icm20948_ReadAk09916Registers c reg n s))) = gyro s"
  "temp (snd (snd (Icm20948_ReadAk09916Registers c reg n s))) = temp s"
  "temp_requested_dlpf (snd (snd (Icm20948_ReadAk09916Registers c reg n s))) = temp_requested_dlpf s"
  "temp_dlpf_bandwidth (snd (snd (Icm20948_ReadAk09916Registers c reg n s))) = temp_dlpf_bandwidth s"
  "mag_data (snd (snd (Icm20948_ReadAk09916Registers c reg n s))) = mag_data s"
  "new_mag_data (snd (snd (Icm20948_ReadAk09916Registers c reg n s))) = new_mag_data s"
  "mag_sensor_overflow (snd (snd (Icm20948_ReadAk09916Registers c reg n s))) = mag_sensor_overflow s"
  "mag_cnts (snd (snd (Icm20948_ReadAk09916Registers c reg n s))) = mag_cnts s"
  "mag (snd (snd (Icm20948_ReadAk09916Registers c reg n s))) = mag s"
  by (simp_all add: Icm20948_ReadAk09916Registers_def case_prod_beta
        Icm20948_WriteRegister_keeps Icm20948_ReadRegisters_keeps)

lemma Icm20948_WriteAk09916Register_keeps:
  "iface (snd (Icm20948_WriteAk09916Register c reg d s)) = iface s"
  "who_am_i (snd (Icm20948_WriteAk09916Register c reg d s)) = who_am_i s"
  "requested_accel_range (snd (Icm20948_WriteAk09916Register c reg d s)) = requested_accel_range s"
  "requested_accel_scale (snd (Icm20948_WriteAk09916Register c reg d s)) = requested_accel_scale s"
  "accel_range (snd (Icm20948_WriteAk09916Register c reg d s)) = accel_range s"
  "accel_scale (snd (Icm20948_WriteAk09916Register c reg d s)) = accel_scale s"
  "requested_gyro_range (snd (Icm20948_WriteAk09916Register c reg d s)) = requested_gyro_range s"
  "requested_gyro_scale (snd (Icm20948_WriteAk09916Register c reg d s)) = requested_gyro_scale s"
  "gyro_range (snd (Icm20948_WriteAk09916Register c reg d s)) = gyro_range s"
  "gyro_scale (snd (Icm20948_WriteAk09916Register c reg d s)) = gyro_scale s"
  "srd (snd (Icm20948_WriteAk09916Register c reg d s)) = srd s"
  "accel_requested_dlpf (snd (Icm20948_WriteAk09916Register c reg d s)) = accel_requested_dlpf s"
  "accel_dlpf_bandwidth (snd (Icm20948_WriteAk09916Register c reg d s)) = accel_dlpf_bandwidth s"
  "gyro_requested_dlpf (snd (Icm20948_WriteAk09916Register c reg d s)) = gyro_requested_dlpf s"
  "gyro_dlpf_bandwidth (snd (Icm20948_WriteAk09916Register c reg d s)) = gyro_dlpf_bandwidth s"
  "data_buf (snd (Icm20948_WriteAk09916Register c reg d s)) = data_buf s"
  "new_imu_data (snd (Icm20948_WriteAk09916Register c reg d s)) = new_imu_data s"
  "accel_cnts (snd (Icm20948_WriteAk09916Register c reg d s)) = accel_cnts s"
  "gyro_cnts (snd (Icm20948_WriteAk09916Register c reg d s)) = gyro_cnts s"
  "temp_cnts (snd (Icm20948_WriteAk09916Register c reg d s)) = temp_cnts s"
  "accel (snd (Icm20948_WriteAk09916Register c reg d s)) = accel s"
  "gyro (snd (Icm20948_WriteAk09916Register c reg d s)) = gyro s"
  "temp (snd (Icm20948_WriteAk09916Register c reg d s)) = temp s"
  "temp_requested_dlpf (snd (Icm20948_WriteAk09916Register c reg d s)) = temp_requested_dlpf s"
  "temp_dlpf_bandwidth (snd (Icm20948_WriteAk09916Register c reg d s)) = temp_dlpf_bandwidth s"
  "mag_data (snd (Icm20948_WriteAk09916Register c reg d s)) = mag_data s"
  "new_mag_data (snd (Icm20948_WriteAk09916Register c reg d s)) = new_mag_data s"
  "mag_sensor_overflow (snd (Icm20948_WriteAk09916Register c reg d s)) = mag_sensor_overflow s"
  "mag_cnts (snd (Icm20948_WriteAk09916Register c reg d s)) = mag_cnts s"
  "mag (snd (Icm20948_WriteAk09916Register c reg d s)) = mag s"
  by (simp_all add: Icm20948_WriteAk09916Register_def case_prod_beta Let_def
        Icm20948_WriteRegister_keeps Icm20948_ReadAk09916Registers_keeps)

subsection \<open>The acquisition blocks\<close>

lemma Icm20948_Read_unpack_mag:
  "new_mag_data (Icm20948_Read_unpack c s) =
     (data_buf s 14 AND AK09916_ST1_DRDY c \<noteq> 0 \<and> data_buf s 22 AND AK09916_ST2_HOFL c = 0)"
  "mag (Icm20948_Read_unpack c s) = mag s"
  "data_buf (Icm20948_Read_unpack c s) = data_buf s"
  by (simp_all add: Icm20948_Read_unpack_def Let_def)

lemma Icm20948_Read_convert_mag:
  "new_mag_data (Icm20948_Read_convert c s) = new_mag_data s"
  "\<not> new_mag_data s \<Longrightarrow> mag (Icm20948_Read_convert c s) = mag s"
  "data_buf (Icm20948_Read_convert c s) = data_buf s"
  by (simp_all add: Icm20948_Read_convert_def Let_def)

lemma Icm20948_Read_mag:
  "fst (Icm20948_Read c s) \<Longrightarrow>
     new_mag_data (snd (Icm20948_Read c s)) =
       (data_buf (snd (Icm20948_Read c s)) 14 AND AK09916_ST1_DRDY c \<noteq> 0
        \<and> data_buf (snd (Icm20948_Read c s)) 22 AND AK09916_ST2_HOFL c = 0)
     \<and> (\<not> new_mag_data (snd (Icm20948_Read c s)) \<longrightarrow> mag (snd (Icm20948_Read c s)) = mag s)"
  by (simp add: Icm20948_Read_def Let_def case_prod_beta Icm20948_ReadRegisters_keeps
       Icm20948_Read_unpack_mag Icm20948_Read_convert_mag split: if_splits)

subsection \<open>The configuration functions\<close>

lemma Icm20649_ConfigAccelRange_set_commits:
  "fst (Icm20649_ConfigAccelRange_set c s) \<Longrightarrow>
     accel_range (snd (Icm20649_ConfigAccelRange_set c s)) = requested_accel_range s \<and>
     accel_scale (snd (Icm20649_ConfigAccelRange_set c s)) = requested_accel_scale s"
  by (simp add: Icm20649_ConfigAccelRange_set_def Let_def case_prod_beta
        Icm20649_WriteRegister_keeps Icm20649_ReadRegisters_keeps split: if_splits)

lemma Icm20649_ConfigAccelRange_commits:
  assumes "fst (Icm20649_ConfigAccelRange c r s)"
  shows "accel_range (snd (Icm20649_ConfigAccelRange c r s)) = r \<and>
     accel_scale (snd (Icm20649_ConfigAccelRange c r s)) =
       (if r = ACCEL_RANGE_4G c then 4 / 32767.5
        else if r = ACCEL_RANGE_8G c then 8 / 32767.5
        else if r = ACCEL_RANGE_16G c then 16 / 32767.5
        else 32 / 32767.5)"
proof -
  have staged: "\<And>sc.
      fst (Icm20649_ConfigAccelRange_set c ((snd (Icm20649_SetBank c 2 s))\<lparr>requested_accel_range := r, requested_accel_scale := sc\<rparr>)) \<Longrightarrow>
      accel_range (snd (Icm20649_ConfigAccelRange_set c
          ((snd (Icm20649_SetBank c 2 s))\<lparr>requested_accel_range := r, requested_accel_scale := sc\<rparr>))) = r \<and>
      accel_scale (snd (Icm20649_ConfigAccelRange_set c
          ((snd (Icm20649_SetBank c 2 s))\<lparr>requested_accel_range := r, requested_accel_scale := sc\<rparr>))) = sc"
    using Icm20649_ConfigAccelRange_set_commits by simp
  show ?thesis
    using assms staged
    by (auto simp: Icm20649_ConfigAccelRange_def case_prod_beta split: if_splits)
qed

lemma Icm20649_ConfigAccelRange_invalid:
  "r \<noteq> ACCEL_RANGE_4G c \<Longrightarrow> r \<noteq> ACCEL_RANGE_8G c \<Longrightarrow> r \<noteq> ACCEL_RANGE_16G c \<Longrightarrow> r \<noteq> ACCEL_RANGE_30G c \<Longrightarrow>
     Icm20649_ConfigAccelRange c r s = (False, snd (Icm20649_SetBank c 2 s))"
  by (simp add: Icm20649_ConfigAccelRange_def case_prod_beta)

lemma Icm20649_ConfigGyroRange_set_commits:
  "fst (Icm20649_ConfigGyroRange_set c s) \<Longrightarrow>
     gyro_range (snd (Icm20649_ConfigGyroRange_set c s)) = requested_gyro_range s \<and>
     gyro_scale (snd (Icm20649_ConfigGyroRange_set c s)) = requested_gyro_scale s"
  by (simp add: Icm20649_ConfigGyroRange_set_def Let_def case_prod_beta
        Icm20649_WriteRegister_keeps Icm20649_ReadRegisters_keeps split: if_splits)

lemma Icm20649_ConfigGyroRange_commits:
  assumes "fst (Icm20649_ConfigGyroRange c r s)"
  shows "gyro_range (snd (Icm20649_ConfigGyroRange c r s)) = r \<and>
     gyro_scale (snd (Icm20649_ConfigGyroRange c r s)) =
       (if r = GYRO_RANGE_500DPS c then 500 / 32767.5
        else if r = GYRO_RANGE_1000DPS c then 1000 / 32767.5
        else if r = GYRO_RANGE_2000DPS c then 2000 / 32767.5
        else 4000 / 32767.5)"
proof -
  have staged: "\<And>sc.
      fst (Icm20649_ConfigGyroRange_set c ((snd (Icm20649_SetBank c 2 s))\<lparr>requested_gyro_range := r, requested_gyro_scale := sc\<rparr>)) \<Longrightarrow>
      gyro_range (snd (Icm20649_ConfigGyroRange_set c
          ((snd (Icm20649_SetBank c 2 s))\<lparr>requested_gyro_range := r, requested_gyro_scale := sc\<rparr>))) = r \<and>
      gyro_scale (snd (Icm20649_ConfigGyroRange_set c
          ((snd (Icm20649_SetBank c 2 s))\<lparr>requested_gyro_range := r, requested_gyro_scale := sc\<rparr>))) = sc"
    using Icm20649_ConfigGyroRange_set_commits by simp
  show ?thesis
    using assms staged
    by (auto simp: Icm20649_ConfigGyroRange_def case_prod_beta split: if_splits)
qed

lemma Icm20649_ConfigGyroRange_invalid:
  "r \<noteq> GYRO_RANGE_500DPS c \<Longrightarrow> r \<noteq> GYRO_RANGE_1000DPS c \<Longrightarrow> r \<noteq> GYRO_RANGE_2000DPS c \<Longrightarrow> r \<noteq> GYRO_RANGE_4000DPS c \<Longrightarrow>
     Icm20649_ConfigGyroRange c r s = (False, snd (Icm20649_SetBank c 2 s))"
  by (simp add: Icm20649_ConfigGyroRange_def case_prod_beta)

lemma Icm20948_ConfigAccelRange_set_commits:
  "fst (Icm20948_ConfigAccelRange_set c s) \<Longrightarrow>
     accel_range (snd (Icm20948_ConfigAccelRange_set c s)) = requested_accel_range s \<and>
     accel_scale (snd (Icm20948_ConfigAccelRange_set c s)) = requested_accel_scale s"
  by (simp add: Icm20948_ConfigAccelRange_set_def Let_def case_prod_beta
        Icm20948_WriteRegister_keeps Icm20948_ReadRegisters_keeps split: if_splits)

lemma Icm20948_ConfigAccelRange_commits:
  assumes "fst (Icm20948_ConfigAccelRange c r s)"
  shows "accel_range (snd (Icm20948_ConfigAccelRange c r s)) = r \<and>
     accel_scale (snd (Icm20948_ConfigAccelRange c r s)) =
       (if r = ACCEL_RANGE_2G c then 2 / 32767.5
        else if r = ACCEL_RANGE_4G c then 4 / 32767.5
        else if r = ACCEL_RANGE_8G c then 8 / 32767.5
        else 16 / 32767.5)"
proof -
  have staged: "\<And>sc.
      fst (Icm20948_ConfigAccelRange_set c ((s)\<lparr>requested_accel_range := r, requested_accel_scale := sc\<rparr>)) \<Longrightarrow>
      accel_range (snd (Icm20948_ConfigAccelRange_set c
          ((s)\<lparr>requested_accel_range := r, requested_accel_scale := sc\<rparr>))) = r \<and>
      accel_scale (snd (Icm20948_ConfigAccelRange_set c
          ((s)\<lparr>requested_accel_range := r, requested_accel_scale := sc\<rparr>))) = sc"
    using Icm20948_ConfigAccelRange_set_commits by simp
  show ?thesis
    using assms staged
    by (auto simp: Icm20948_ConfigAccelRange_def case_prod_beta split: if_splits)
qed

lemma Icm20948_ConfigAccelRange_invalid:
  "r \<noteq> ACCEL_RANGE_2G c \<Longrightarrow> r \<noteq> ACCEL_RANGE_4G c \<Longrightarrow> r \<noteq> ACCEL_RANGE_8G c \<Longrightarrow> r \<noteq> ACCEL_RANGE_16G c \<Longrightarrow>
     Icm20948_ConfigAccelRange c r s = (False, s)"
  by (simp add: Icm20948_ConfigAccelRange_def case_prod_beta)

lemma Icm20948_ConfigGyroRange_set_commits:
  "fst (Icm20948_ConfigGyroRange_set c s) \<Longrightarrow>
     gyro_range (snd (Icm20948_ConfigGyroRange_set c s)) = requested_gyro_range s \<and>
     gyro_scale (snd (Icm20948_ConfigGyroRange_set c s)) = requested_gyro_scale s"
  by (simp add: Icm20948_ConfigGyroRange_set_def Let_def case_prod_beta
        Icm20948_WriteRegister_keeps Icm20948_ReadRegisters_keeps split: if_splits)

lemma Icm20948_ConfigGyroRange_commits:
  assumes "fst (Icm20948_ConfigGyroRange c r s)"
  shows "gyro_range (snd (Icm20948_ConfigGyroRange c r s)) = r \<and>
     gyro_scale (snd (Icm20948_ConfigGyroRange c r s)) =
       (if r = GYRO_RANGE_250DPS c then 250 / 32767.5
        else if r = GYRO_RANGE_500DPS c then 500 / 32767.5
        else if r = GYRO_RANGE_1000DPS c then 1000 / 32767.5
        else 2000 / 32767.5)"
proof -
  have staged: "\<And>sc.
      fst (Icm20948_ConfigGyroRange_set c ((s)\<lparr>requested_gyro_range := r, requested_gyro_scale := sc\<rparr>)) \<Longrightarrow>
      gyro_range (snd (Icm20948_ConfigGyroRange_set c
          ((s)\<lparr>requested_gyro_range := r, requested_gyro_scale := sc\<rparr>))) = r \<and>
      gyro_scale (snd (Icm20948_ConfigGyroRange_set c
          ((s)\<lparr>requested_gyro_range := r, requested_gyro_scale := sc\<rparr>))) = sc"
    using Icm20948_ConfigGyroRange_set_commits by simp
  show ?thesis
    using assms staged
    by (auto simp: Icm20948_ConfigGyroRange_def case_prod_beta split: if_splits)
qed

lemma Icm20948_ConfigGyroRange_invalid:
  "r \<noteq> GYRO_RANGE_250DPS c \<Longrightarrow> r \<noteq> GYRO_RANGE_500DPS c \<Longrightarrow> r \<noteq> GYRO_RANGE_1000DPS c \<Longrightarrow> r \<noteq> GYRO_RANGE_2000DPS c \<Longrightarrow>
     Icm20948_ConfigGyroRange c r s = (False, s)"
  by (simp add: Icm20948_ConfigGyroRange_def case_prod_beta)

lemma Icm20649_ConfigAccelDlpfBandwidth_invalid:
  "r \<noteq> ACCEL_DLPF_BANDWIDTH_246HZ c \<Longrightarrow>
   r \<noteq> ACCEL_DLPF_BANDWIDTH_111HZ c \<Longrightarrow>
   r \<noteq> ACCEL_DLPF_BANDWIDTH_50HZ c \<Longrightarrow>
   r \<noteq> ACCEL_DLPF_BANDWIDTH_23HZ c \<Longrightarrow>
   r \<noteq> ACCEL_DLPF_BANDWIDTH_11HZ c \<Longrightarrow>
   r \<noteq> ACCEL_DLPF_BANDWIDTH_5HZ c \<Longrightarrow>
   r \<noteq> ACCEL_DLPF_BANDWIDTH_473HZ c \<Longrightarrow>
     Icm20649_ConfigAccelDlpfBandwidth c r s = (False, snd (Icm20649_SetBank c 2 s))"
  by (simp add: Icm20649_ConfigAccelDlpfBandwidth_def case_prod_beta)

lemma Icm20649_ConfigGyroDlpfBandwidth_invalid:
  "r \<noteq> GYRO_DLPF_BANDWIDTH_196HZ c \<Longrightarrow>
   r \<noteq> GYRO_DLPF_BANDWIDTH_151HZ c \<Longrightarrow>
   r \<noteq> GYRO_DLPF_BANDWIDTH_119HZ c \<Longrightarrow>
   r \<noteq> GYRO_DLPF_BANDWIDTH_51HZ c \<Longrightarrow>
   r \<noteq> GYRO_DLPF_BANDWIDTH_23HZ c \<Longrightarrow>
   r \<noteq> GYRO_DLPF_BANDWIDTH_11HZ c \<Longrightarrow>
   r \<noteq> GYRO_DLPF_BANDWIDTH_5HZ c \<Longrightarrow>
   r \<noteq> GYRO_DLPF_BANDWIDTH_361HZ c \<Longrightarrow>
     Icm20649_ConfigGyroDlpfBandwidth c r s = (False, snd (Icm20649_SetBank c 2 s))"
  by (simp add: Icm20649_ConfigGyroDlpfBandwidth_def case_prod_beta)

lemma Icm20948_ConfigAccelDlpfBandwidth_invalid:
  "r \<noteq> ACCEL_DLPF_BANDWIDTH_246HZ c \<Longrightarrow>
   r \<noteq> ACCEL_DLPF_BANDWIDTH_111HZ c \<Longrightarrow>
   r \<noteq> ACCEL_DLPF_BANDWIDTH_50HZ c \<Longrightarrow>
   r \<noteq> ACCEL_DLPF_BANDWIDTH_23HZ c \<Longrightarrow>
   r \<noteq> ACCEL_DLPF_BANDWIDTH_11HZ c \<Longrightarrow>
   r \<noteq> ACCEL_DLPF_BANDWIDTH_5HZ c \<Longrightarrow>
   r \<noteq> ACCEL_DLPF_BANDWIDTH_473HZ c \<Longrightarrow>
     Icm20948_ConfigAccelDlpfBandwidth c r s = (False, s)"
  by (simp add: Icm20948_ConfigAccelDlpfBandwidth_def case_prod_beta)

lemma Icm20948_ConfigGyroDlpfBandwidth_invalid:
  "r \<noteq> GYRO_DLPF_BANDWIDTH_196HZ c \<Longrightarrow>
   r \<noteq> GYRO_DLPF_BANDWIDTH_151HZ c \<Longrightarrow>
   r \<noteq> GYRO_DLPF_BANDWIDTH_119HZ c \<Longrightarrow>
   r \<noteq> GYRO_DLPF_BANDWIDTH_51HZ c \<Longrightarrow>
   r \<noteq> GYRO_DLPF_BANDWIDTH_23HZ c \<Longrightarrow>
   r \<noteq> GYRO_DLPF_BANDWIDTH_11HZ c \<Longrightarrow>
   r \<noteq> GYRO_DLPF_BANDWIDTH_5HZ c \<Longrightarrow>
   r \<noteq> GYRO_DLPF_BANDWIDTH_361HZ c \<Longrightarrow>
     Icm20948_ConfigGyroDlpfBandwidth c r s = (False, s)"
  by (simp add: Icm20948_ConfigGyroDlpfBandwidth_def case_prod_beta)

lemma Icm20948_ConfigTempDlpfBandwidth_invalid:
  "r \<noteq> TEMP_DLPF_BANDWIDTH_7932HZ c \<Longrightarrow>
   r \<noteq> TEMP_DLPF_BANDWIDTH_217HZ c \<Longrightarrow>
   r \<noteq> TEMP_DLPF_BANDWIDTH_123HZ c \<Longrightarrow>
   r \<noteq> TEMP_DLPF_BANDWIDTH_65HZ c \<Longrightarrow>
   r \<noteq> TEMP_DLPF_BANDWIDTH_34HZ c \<Longrightarrow>
   r \<noteq> TEMP_DLPF_BANDWIDTH_17HZ c \<Longrightarrow>
   r \<noteq> TEMP_DLPF_BANDWIDTH_8HZ c \<Longrightarrow>
     Icm20948_ConfigTempDlpfBandwidth c r s = (False, s)"
  by (simp add: Icm20948_ConfigTempDlpfBandwidth_def case_prod_beta)

subsection \<open>The transactions of a field update\<close>



















subsection \<open>MPU9250\<close>

lemma MPU9250_writeRegister_keeps:
  "accelScale (MPU9250_writeRegister a d s) = accelScale s"
  "gyroScale (MPU9250_writeRegister a d s) = gyroScale s"
  by (simp_all add: MPU9250_writeRegister_def)

lemma MPU9250_begin_accelScale:
  "accelScale (MPU9250_begin a g s) =
     (if a = ''16G'' then MPU9250_G * 16 / 32767.5
      else if a = ''8G'' then MPU9250_G * 8 / 32767.5
      else if a = ''4G'' then MPU9250_G * 4 / 32767.5
      else if a = ''2G'' then MPU9250_G * 2 / 32767.5
      else accelScale s)"
  by (simp add: MPU9250_begin_def Let_def MPU9250_writeRegister_keeps)

lemma MPU9250_begin_gyroScale:
  "gyroScale (MPU9250_begin a g s) =
     (if g = ''2000DPS'' then 2000 / 32767.5
      else if g = ''1000DPS'' then 1000 / 32767.5
      else if g = ''500DPS'' then 500 / 32767.5
      else if g = ''250DPS'' then 250 / 32767.5
      else gyroScale s)"
  by (simp add: MPU9250_begin_def Let_def MPU9250_writeRegister_keeps)

lemma MPU9250_begin_no_accel_write:
  "a \<noteq> ''2G'' \<Longrightarrow> a \<noteq> ''4G'' \<Longrightarrow> a \<noteq> ''8G'' \<Longrightarrow> a \<noteq> ''16G'' \<Longrightarrow>
     \<forall>t \<in> set (new_transactions (Wire s) (Wire (MPU9250_begin a g s))).
        \<not> is_write_to MPU9250_ACCEL_CONFIG t"
  by (simp add: MPU9250_begin_def Let_def MPU9250_writeRegister_issued new_transactions_def
        is_write_to_def MPU9250_ACCEL_CONFIG_def MPU9250_GYRO_CONFIG_def MPU9250_PWR_MGMNT_1_def)

lemma MPU9250_begin_no_gyro_write:
  "g \<noteq> ''250DPS'' \<Longrightarrow> g \<noteq> ''500DPS'' \<Longrightarrow> g \<noteq> ''1000DPS'' \<Longrightarrow> g \<noteq> ''2000DPS'' \<Longrightarrow>
     \<forall>t \<in> set (new_transactions (Wire s) (Wire (MPU9250_begin a g s))).
        \<not> is_write_to MPU9250_GYRO_CONFIG t"
  by (simp add: MPU9250_begin_def Let_def MPU9250_writeRegister_issued new_transactions_def
        is_write_to_def MPU9250_ACCEL_CONFIG_def MPU9250_GYRO_CONFIG_def MPU9250_PWR_MGMNT_1_def)



section \<open>Bank selection\<close>

text \<open>
  C7. A bank-select write is issued only when the requested bank differs from the cached one.
  \<open>Icm20649::SetBank\<close> with the cached bank returns success and leaves the driver and the bus
  as they were; with another bank it issues exactly one transaction, the write of
  \<open>bank << 4\<close> to \<open>REG_BANK_SEL\<close>, returns what the transport answered, and the cached bank
  is the requested one after an acknowledged write and the old one after a failed write; after
  a successful select, a second select of the same bank changes nothing, so the two together
  issued at most that one write. \<open>Icm20948::WriteRegister\<close> and \<open>ReadRegisters\<close> select the
  bank the same way in front of their own transaction: no bank-select write for the cached
  bank; otherwise one bank-select write first, after whose failure nothing else is issued,
  the cached bank is unchanged and the operation fails, and after whose success the cached
  bank is the requested one.
\<close>

theorem bank_select_only_on_change:
  "(case Icm20649_SetBank c bank s of (ok, s') \<Rightarrow>
      (bank = current_bank s \<longrightarrow> ok \<and> s' = s) \<and>
      (bank \<noteq> current_bank s \<longrightarrow>
         ok = fst (next_reply (imu s)) \<and>
         new_transactions (imu s) (imu s') =
           [(BusWrite (REG_BANK_SEL c) (push_bit 4 bank), ok, [])] \<and>
         current_bank s' = (if ok then bank else current_bank s)) \<and>
      (ok \<longrightarrow> Icm20649_SetBank c bank s' = (True, s')))
   \<and> (case Icm20948_WriteRegister d bank reg data t of (ok, t') \<Rightarrow>
      (bank = current_bank t \<longrightarrow>
         new_transactions (imu t) (imu t') = [(BusWrite reg data, ok, [])] \<and>
         current_bank t' = current_bank t) \<and>
      (bank \<noteq> current_bank t \<longrightarrow>
         new_transactions (imu t) (imu t') =
           (BusWrite (REG_BANK_SEL d) (push_bit 4 bank), fst (next_reply (imu t)), [])
           # (if fst (next_reply (imu t)) then [(BusWrite reg data, ok, [])] else []) \<and>
         current_bank t' = (if fst (next_reply (imu t)) then bank else current_bank t) \<and>
         (ok \<longrightarrow> fst (next_reply (imu t)))))
   \<and> (case Icm20948_ReadRegisters d bank reg n t of (ok, bs, t') \<Rightarrow>
      (bank = current_bank t \<longrightarrow>
         new_transactions (imu t) (imu t') = [(BusRead reg (unat n), ok, bs)] \<and>
         current_bank t' = current_bank t) \<and>
      (bank \<noteq> current_bank t \<longrightarrow>
         new_transactions (imu t) (imu t') =
           (BusWrite (REG_BANK_SEL d) (push_bit 4 bank), fst (next_reply (imu t)), [])
           # (if fst (next_reply (imu t)) then [(BusRead reg (unat n), ok, bs)] else []) \<and>
         current_bank t' = (if fst (next_reply (imu t)) then bank else current_bank t) \<and>
         (ok \<longrightarrow> fst (next_reply (imu t)))))"
  (is "?set_bank \<and> ?wr_reg \<and> ?rd_regs")
proof (intro conjI)
  show ?set_bank
    using Icm20649_SetBank_cached[of c s] Icm20649_SetBank_switch[of bank s c]
      Icm20649_SetBank_again[of c bank s]
    by (cases "Icm20649_SetBank c bank s") auto
  show ?wr_reg
    using Icm20948_WriteRegister_cached[of d t reg data]
      Icm20948_WriteRegister_switch[of bank t d reg data]
    by (cases "Icm20948_WriteRegister d bank reg data t") auto
  show ?rd_regs
    using Icm20948_ReadRegisters_cached[of d t reg n]
      Icm20948_ReadRegisters_switch[of bank t d reg n]
    by (cases "Icm20948_ReadRegisters d bank reg n t") auto
qed

theorem bank_select_only_on_change_witness:
  "current_bank (fresh_Icm20649 [(True, [])]) \<noteq> 2
   \<and> fst (Icm20649_SetBank Icm20649_h 2 (fresh_Icm20649 [(True, [])]))
   \<and> new_transactions (imu (fresh_Icm20649 [(True, [])]))
        (imu (snd (Icm20649_SetBank Icm20649_h 2 (fresh_Icm20649 [(True, [])])))) =
       [(BusWrite 0x7F 0x20, True, [])]
   \<and> current_bank (snd (Icm20649_SetBank Icm20649_h 2 (fresh_Icm20649 [(True, [])]))) = 2
   \<and> Icm20649_SetBank Icm20649_h 2 (snd (Icm20649_SetBank Icm20649_h 2 (fresh_Icm20649 [(True, [])]))) =
       (True, snd (Icm20649_SetBank Icm20649_h 2 (fresh_Icm20649 [(True, [])])))
   \<and> current_bank (fresh_Icm20948 [(False, [])]) \<noteq> 2
   \<and> \<not> fst (Icm20948_WriteRegister Icm20948_h 2 0x14 0x06 (fresh_Icm20948 [(False, [])]))
   \<and> new_transactions (imu (fresh_Icm20948 [(False, [])]))
        (imu (snd (Icm20948_WriteRegister Icm20948_h 2 0x14 0x06 (fresh_Icm20948 [(False, [])])))) =
       [(BusWrite 0x7F 0x20, False, [])]
   \<and> current_bank (snd (Icm20948_WriteRegister Icm20948_h 2 0x14 0x06 (fresh_Icm20948 [(False, [])]))) = 0
   \<and> current_bank (fresh_Icm20948 [(True, [0x01])]) = 0
   \<and> new_transactions (imu (fresh_Icm20948 [(True, [0x01])]))
        (imu (snd (snd (Icm20948_ReadRegisters Icm20948_h 0 0x1A 1 (fresh_Icm20948 [(True, [0x01])]))))) =
       [(BusRead 0x1A 1, True, [0x01])]"
  using bank_select_only_on_change[where c = Icm20649_h and bank = 2
      and s = "fresh_Icm20649 [(True, [])]" and d = Icm20948_h and reg = "0x14"
      and data = "0x06" and t = "fresh_Icm20948 [(False, [])]" and n = 1]
    bank_select_only_on_change[where c = Icm20649_h and bank = 0
      and s = "fresh_Icm20649 [(True, [])]" and d = Icm20948_h and reg = "0x1A"
      and data = 0 and t = "fresh_Icm20948 [(True, [0x01])]" and n = 1]
  by (simp add: Icm20649_SetBank_def Icm20649_WriteRegister_def Icm20948_WriteRegister_def
        Icm20948_ReadRegisters_def Icm20649_h_def Icm20948_h_def eval_defs)

section \<open>Magnetometer validity\<close>

text \<open>
  C8. After a \<open>Read\<close> of \<open>Icm20948\<close> that returned true, \<open>new_mag_data_\<close> is true exactly when
  the data-ready bit of the status byte \<open>data_buf_[14]\<close> is set and the overflow bit of the
  status byte \<open>data_buf_[22]\<close> is clear; whenever it is false, be it for a clear data-ready
  bit or for a set overflow bit, the scaled magnetometer values \<open>mag_\<close> are those the driver
  held before the call.
\<close>

theorem Icm20948_Read_new_mag_data:
  assumes "Icm20948_Read c s = (True, s')"
  shows "new_mag_data s' =
           (data_buf s' 14 AND AK09916_ST1_DRDY c \<noteq> 0 \<and> data_buf s' 22 AND AK09916_ST2_HOFL c = 0)
         \<and> (\<not> new_mag_data s' \<longrightarrow> mag s' = mag s)"
  using Icm20948_Read_mag[of c s] assms by simp

theorem Icm20948_Read_new_mag_data_witness:
  "Icm20948_Read Icm20948_h mag_overflow_input =
     (True, snd (Icm20948_Read Icm20948_h mag_overflow_input))
   \<and> data_buf (snd (Icm20948_Read Icm20948_h mag_overflow_input)) 14 AND AK09916_ST1_DRDY Icm20948_h \<noteq> 0
   \<and> data_buf (snd (Icm20948_Read Icm20948_h mag_overflow_input)) 22 AND AK09916_ST2_HOFL Icm20948_h \<noteq> 0
   \<and> \<not> new_mag_data (snd (Icm20948_Read Icm20948_h mag_overflow_input))
   \<and> mag (snd (Icm20948_Read Icm20948_h mag_overflow_input)) = mag mag_overflow_input"
proof -
  have run: "Icm20948_Read Icm20948_h mag_overflow_input =
      (True, snd (Icm20948_Read Icm20948_h mag_overflow_input))"
    by (simp add: prod_eq_iff mag_overflow_input_def Icm20948_h_def Icm20948_Read_def
          Icm20948_ReadRegisters_def eval_defs)
  have status: "data_buf (snd (Icm20948_Read Icm20948_h mag_overflow_input)) 14 = 1
      \<and> data_buf (snd (Icm20948_Read Icm20948_h mag_overflow_input)) 22 = 8"
    by (simp add: mag_overflow_input_def Icm20948_h_def Icm20948_Read_def
          Icm20948_ReadRegisters_def Icm20948_Read_unpack_mag Icm20948_Read_convert_mag eval_defs)
  show ?thesis
    using Icm20948_Read_new_mag_data[OF run] run status by (simp add: Icm20948_h_def)
qed

section \<open>The sample-rate divider of MPU9250\<close>

text \<open>
  C10. \<open>MPU9250::setFilt\<close> divides 1000 by the caller's frequency byte without a guard: with
  the frequency zero the run ends in the division error. With any other frequency it returns,
  and its last three bus writes are the divider \<open>1000 / frequency - 1\<close> to \<open>SMPDIV\<close>, zero to
  \<open>INT_PIN_CFG\<close> and one to \<open>INT_ENABLE\<close>; the divider is the integer quotient less one,
  reduced to eight bits, that is modulo 256.
\<close>

theorem MPU9250_setFilt_sample_rate_divider:
  "MPU9250_setFilt bandwidth 0 s = Inl DivisionByZero \<and>
   (frequency \<noteq> 0 \<longrightarrow>
      (\<exists>s' pre a1 a2 a3.
          MPU9250_setFilt bandwidth frequency s = Inr s' \<and>
          new_transactions (Wire s) (Wire s') = pre @
            [(BusWrite MPU9250_SMPDIV (word_of_int (1000 div uint frequency - 1)), a1, []),
             (BusWrite MPU9250_INT_PIN_CFG 0, a2, []),
             (BusWrite MPU9250_INT_ENABLE 1, a3, [])]) \<and>
      uint (word_of_int (1000 div uint frequency - 1) :: u8) =
        (1000 div uint frequency - 1) mod 256)"
  (is "?zero \<and> (_ \<longrightarrow> ?srd_written \<and> ?truncated)")
proof (intro conjI impI)
  show ?zero
    by (simp add: MPU9250_setFilt_def Let_def)
next
  assume "frequency \<noteq> 0"
  then show ?srd_written
    by (simp add: MPU9250_setFilt_def Let_def MPU9250_writeRegister_issued new_transactions_def)
next
  show ?truncated
    by (rule uint_u8_of_int)
qed

theorem MPU9250_setFilt_sample_rate_divider_witness:
  "MPU9250_setFilt ''184HZ'' 0 (fresh_MPU9250 []) = Inl DivisionByZero \<and>
   (1 :: u8) \<noteq> 0 \<and>
   (\<exists>s' pre a1 a2 a3.
       MPU9250_setFilt ''184HZ'' 1 (fresh_MPU9250 []) = Inr s' \<and>
       new_transactions (Wire (fresh_MPU9250 [])) (Wire s') = pre @
         [(BusWrite MPU9250_SMPDIV 231, a1, []),
          (BusWrite MPU9250_INT_PIN_CFG 0, a2, []),
          (BusWrite MPU9250_INT_ENABLE 1, a3, [])]) \<and>
   uint (231 :: u8) = 999 mod 256"
proof -
  have trunc: "(999 :: u8) = 231" by simp
  show ?thesis
    using MPU9250_setFilt_sample_rate_divider[of "''184HZ''" "fresh_MPU9250 []" 1]
    by (simp add: trunc)
qed

section \<open>Scale factors\<close>

lemma range_30G_run:
  "fst (Icm20649_ConfigAccelRange Icm20649_h (ACCEL_RANGE_30G Icm20649_h) range_30G_input)"
  "accel_scale (snd (Icm20649_ConfigAccelRange Icm20649_h (ACCEL_RANGE_30G Icm20649_h) range_30G_input))
     = 32 / 32767.5"
  by (simp_all add: range_30G_input_def Icm20649_eval eval_defs)

text \<open>
  C2, as amended. A range configuration that returns success has committed the requested range
  and the scale \<open>full_scale / 32767.5\<close>, where the full scale of \<open>Icm20649\<close> is 4, 8, 16 and,
  for the setting named \<open>ACCEL_RANGE_30G\<close>, 32 (not 30) for the accelerometer and 500, 1000,
  2000, 4000 for the gyroscope, and that of \<open>Icm20948\<close> is 2, 4, 8, 16 and 250, 500, 1000,
  2000. \<open>MPU9250::begin\<close> sets the gyroscope scale \<open>full_scale / 32767.5\<close> and the
  accelerometer scale \<open>9.807 * full_scale / 32767.5\<close>, the factor \<open>G\<close> included. The
  enumerators of one enumeration are distinct, as the labels of a \<open>switch\<close> are.
\<close>

theorem range_scale_factors:
  assumes "distinct [ACCEL_RANGE_4G c, ACCEL_RANGE_8G c, ACCEL_RANGE_16G c, ACCEL_RANGE_30G c]"
    and "distinct [GYRO_RANGE_500DPS c, GYRO_RANGE_1000DPS c, GYRO_RANGE_2000DPS c, GYRO_RANGE_4000DPS c]"
    and "distinct [ACCEL_RANGE_2G d, ACCEL_RANGE_4G d, ACCEL_RANGE_8G d, ACCEL_RANGE_16G d]"
    and "distinct [GYRO_RANGE_250DPS d, GYRO_RANGE_500DPS d, GYRO_RANGE_1000DPS d, GYRO_RANGE_2000DPS d]"
  shows
   "(\<forall>(r, full_scale) \<in> set [(ACCEL_RANGE_4G c, 4), (ACCEL_RANGE_8G c, 8),
                              (ACCEL_RANGE_16G c, 16), (ACCEL_RANGE_30G c, 32)].
       fst (Icm20649_ConfigAccelRange c r s) \<longrightarrow>
         accel_range (snd (Icm20649_ConfigAccelRange c r s)) = r \<and>
         accel_scale (snd (Icm20649_ConfigAccelRange c r s)) = full_scale / 32767.5)
    \<and> (\<forall>(r, full_scale) \<in> set [(GYRO_RANGE_500DPS c, 500), (GYRO_RANGE_1000DPS c, 1000),
                              (GYRO_RANGE_2000DPS c, 2000), (GYRO_RANGE_4000DPS c, 4000)].
       fst (Icm20649_ConfigGyroRange c r s) \<longrightarrow>
         gyro_range (snd (Icm20649_ConfigGyroRange c r s)) = r \<and>
         gyro_scale (snd (Icm20649_ConfigGyroRange c r s)) = full_scale / 32767.5)
    \<and> (\<forall>(r, full_scale) \<in> set [(ACCEL_RANGE_2G d, 2), (ACCEL_RANGE_4G d, 4),
                              (ACCEL_RANGE_8G d, 8), (ACCEL_RANGE_16G d, 16)].
       fst (Icm20948_ConfigAccelRange d r t) \<longrightarrow>
         accel_range (snd (Icm20948_ConfigAccelRange d r t)) = r \<and>
         accel_scale (snd (Icm20948_ConfigAccelRange d r t)) = full_scale / 32767.5)
    \<and> (\<forall>(r, full_scale) \<in> set [(GYRO_RANGE_250DPS d, 250), (GYRO_RANGE_500DPS d, 500),
                              (GYRO_RANGE_1000DPS d, 1000), (GYRO_RANGE_2000DPS d, 2000)].
       fst (Icm20948_ConfigGyroRange d r t) \<longrightarrow>
         gyro_range (snd (Icm20948_ConfigGyroRange d r t)) = r \<and>
         gyro_scale (snd (Icm20948_ConfigGyroRange d r t)) = full_scale / 32767.5)
    \<and> (\<forall>(a, full_scale) \<in> set [(''2G'', 2), (''4G'', 4), (''8G'', 8), (''16G'', 16)].
       accelScale (MPU9250_begin a g m) = 9.807 * full_scale / 32767.5)
    \<and> (\<forall>(g, full_scale) \<in> set [(''250DPS'', 250), (''500DPS'', 500),
                              (''1000DPS'', 1000), (''2000DPS'', 2000)].
       gyroScale (MPU9250_begin a g m) = full_scale / 32767.5)"
  (is "?accel49 \<and> ?gyro49 \<and> ?accel48 \<and> ?gyro48 \<and> ?accel9250 \<and> ?gyro9250")
proof (intro conjI)
  show ?accel49
    using assms(1) Icm20649_ConfigAccelRange_commits[of c _ s] by auto
  show ?gyro49
    using assms(2) Icm20649_ConfigGyroRange_commits[of c _ s] by auto
  show ?accel48
    using assms(3) Icm20948_ConfigAccelRange_commits[of d _ t] by auto
  show ?gyro48
    using assms(4) Icm20948_ConfigGyroRange_commits[of d _ t] by auto
  show ?accel9250
    by (simp add: MPU9250_begin_accelScale MPU9250_G_def)
  show ?gyro9250
    by (simp add: MPU9250_begin_gyroScale)
qed

text \<open>
  The claim as stated fails for the 30G setting: the scale committed is \<open>32 / 32767.5\<close>.
\<close>

theorem range_scale_30G_counterexample:
  "fst (Icm20649_ConfigAccelRange Icm20649_h (ACCEL_RANGE_30G Icm20649_h) range_30G_input)
   \<and> accel_scale (snd (Icm20649_ConfigAccelRange Icm20649_h (ACCEL_RANGE_30G Icm20649_h) range_30G_input))
       \<noteq> 30 / 32767.5"
  by (simp add: range_30G_run)

theorem range_scale_factors_witness:
  "distinct [ACCEL_RANGE_4G Icm20649_h, ACCEL_RANGE_8G Icm20649_h, ACCEL_RANGE_16G Icm20649_h,
             ACCEL_RANGE_30G Icm20649_h]
   \<and> distinct [GYRO_RANGE_500DPS Icm20649_h, GYRO_RANGE_1000DPS Icm20649_h,
               GYRO_RANGE_2000DPS Icm20649_h, GYRO_RANGE_4000DPS Icm20649_h]
   \<and> distinct [ACCEL_RANGE_2G Icm20948_h, ACCEL_RANGE_4G Icm20948_h, ACCEL_RANGE_8G Icm20948_h,
               ACCEL_RANGE_16G Icm20948_h]
   \<and> distinct [GYRO_RANGE_250DPS Icm20948_h, GYRO_RANGE_500DPS Icm20948_h,
               GYRO_RANGE_1000DPS Icm20948_h, GYRO_RANGE_2000DPS Icm20948_h]
   \<and> fst (Icm20649_ConfigAccelRange Icm20649_h (ACCEL_RANGE_30G Icm20649_h) range_30G_input)
   \<and> accel_range (snd (Icm20649_ConfigAccelRange Icm20649_h (ACCEL_RANGE_30G Icm20649_h) range_30G_input))
       = ACCEL_RANGE_30G Icm20649_h
   \<and> accel_scale (snd (Icm20649_ConfigAccelRange Icm20649_h (ACCEL_RANGE_30G Icm20649_h) range_30G_input))
       = 32 / 32767.5
   \<and> accelScale (MPU9250_begin ''4G'' ''250DPS'' (fresh_MPU9250 [])) = 9.807 * 4 / 32767.5
   \<and> gyroScale (MPU9250_begin ''4G'' ''250DPS'' (fresh_MPU9250 [])) = 250 / 32767.5"
proof -
  have e49: "distinct [ACCEL_RANGE_4G Icm20649_h, ACCEL_RANGE_8G Icm20649_h,
      ACCEL_RANGE_16G Icm20649_h, ACCEL_RANGE_30G Icm20649_h]"
    "distinct [GYRO_RANGE_500DPS Icm20649_h, GYRO_RANGE_1000DPS Icm20649_h,
      GYRO_RANGE_2000DPS Icm20649_h, GYRO_RANGE_4000DPS Icm20649_h]"
    by (simp_all add: Icm20649_h_def)
  have e48: "distinct [ACCEL_RANGE_2G Icm20948_h, ACCEL_RANGE_4G Icm20948_h,
      ACCEL_RANGE_8G Icm20948_h, ACCEL_RANGE_16G Icm20948_h]"
    "distinct [GYRO_RANGE_250DPS Icm20948_h, GYRO_RANGE_500DPS Icm20948_h,
      GYRO_RANGE_1000DPS Icm20948_h, GYRO_RANGE_2000DPS Icm20948_h]"
    by (simp_all add: Icm20948_h_def)
  show ?thesis
    using range_scale_factors[OF e49 e48, where s = range_30G_input and a = "''4G''"
        and g = "''250DPS''" and m = "fresh_MPU9250 []"]
      e49 e48 range_30G_run(1)
    by (simp add: mult.commute)
qed

section \<open>Invalid configuration values\<close>

text \<open>
  C3, as amended. A configuration function called with a value outside its enumeration returns
  failure and commits nothing. On \<open>Icm20948\<close> it leaves the driver and the bus exactly as they
  were. On \<open>Icm20649\<close> the function selects bank 2 before it looks at the value, so its result
  is failure together with the state \<open>SetBank(2)\<close> leaves: the one bus write it can have
  issued is the bank-select write, issued when the cached bank is not 2, and the committed
  ranges, scales, filter settings and divider are unchanged. \<open>MPU9250::begin\<close> returns nothing;
  with a range string it does not know it leaves the scale unchanged and writes nothing to the
  range register.
\<close>

theorem invalid_configuration_value_rejected:
  "(r \<notin> {ACCEL_RANGE_4G c, ACCEL_RANGE_8G c, ACCEL_RANGE_16G c, ACCEL_RANGE_30G c} \<longrightarrow>
      Icm20649_ConfigAccelRange c r s = (False, snd (Icm20649_SetBank c 2 s)))
   \<and> (r \<notin> {GYRO_RANGE_500DPS c, GYRO_RANGE_1000DPS c, GYRO_RANGE_2000DPS c, GYRO_RANGE_4000DPS c} \<longrightarrow>
      Icm20649_ConfigGyroRange c r s = (False, snd (Icm20649_SetBank c 2 s)))
   \<and> (r \<notin> {ACCEL_DLPF_BANDWIDTH_246HZ c, ACCEL_DLPF_BANDWIDTH_111HZ c, ACCEL_DLPF_BANDWIDTH_50HZ c,
            ACCEL_DLPF_BANDWIDTH_23HZ c, ACCEL_DLPF_BANDWIDTH_11HZ c, ACCEL_DLPF_BANDWIDTH_5HZ c,
            ACCEL_DLPF_BANDWIDTH_473HZ c} \<longrightarrow>
      Icm20649_ConfigAccelDlpfBandwidth c r s = (False, snd (Icm20649_SetBank c 2 s)))
   \<and> (r \<notin> {GYRO_DLPF_BANDWIDTH_196HZ c, GYRO_DLPF_BANDWIDTH_151HZ c, GYRO_DLPF_BANDWIDTH_119HZ c,
            GYRO_DLPF_BANDWIDTH_51HZ c, GYRO_DLPF_BANDWIDTH_23HZ c, GYRO_DLPF_BANDWIDTH_11HZ c,
            GYRO_DLPF_BANDWIDTH_5HZ c, GYRO_DLPF_BANDWIDTH_361HZ c} \<longrightarrow>
      Icm20649_ConfigGyroDlpfBandwidth c r s = (False, snd (Icm20649_SetBank c 2 s)))
   \<and> new_transactions (imu s) (imu (snd (Icm20649_SetBank c 2 s))) =
        (if 2 = current_bank s then []
         else [(BusWrite (REG_BANK_SEL c) (push_bit 4 2), fst (next_reply (imu s)), [])])
   \<and> accel_range (snd (Icm20649_SetBank c 2 s)) = accel_range s
   \<and> accel_scale (snd (Icm20649_SetBank c 2 s)) = accel_scale s
   \<and> gyro_range (snd (Icm20649_SetBank c 2 s)) = gyro_range s
   \<and> gyro_scale (snd (Icm20649_SetBank c 2 s)) = gyro_scale s
   \<and> accel_dlpf_bandwidth (snd (Icm20649_SetBank c 2 s)) = accel_dlpf_bandwidth s
   \<and> gyro_dlpf_bandwidth (snd (Icm20649_SetBank c 2 s)) = gyro_dlpf_bandwidth s
   \<and> srd (snd (Icm20649_SetBank c 2 s)) = srd s
   \<and> (r \<notin> {ACCEL_RANGE_2G d, ACCEL_RANGE_4G d, ACCEL_RANGE_8G d, ACCEL_RANGE_16G d} \<longrightarrow>
      Icm20948_ConfigAccelRange d r t = (False, t))
   \<and> (r \<notin> {GYRO_RANGE_250DPS d, GYRO_RANGE_500DPS d, GYRO_RANGE_1000DPS d, GYRO_RANGE_2000DPS d} \<longrightarrow>
      Icm20948_ConfigGyroRange d r t = (False, t))
   \<and> (r \<notin> {ACCEL_DLPF_BANDWIDTH_246HZ d, ACCEL_DLPF_BANDWIDTH_111HZ d, ACCEL_DLPF_BANDWIDTH_50HZ d,
            ACCEL_DLPF_BANDWIDTH_23HZ d, ACCEL_DLPF_BANDWIDTH_11HZ d, ACCEL_DLPF_BANDWIDTH_5HZ d,
            ACCEL_DLPF_BANDWIDTH_473HZ d} \<longrightarrow>
      Icm20948_ConfigAccelDlpfBandwidth d r t = (False, t))
   \<and> (r \<notin> {GYRO_DLPF_BANDWIDTH_196HZ d, GYRO_DLPF_BANDWIDTH_151HZ d, GYRO_DLPF_BANDWIDTH_119HZ d,
            GYRO_DLPF_BANDWIDTH_51HZ d, GYRO_DLPF_BANDWIDTH_23HZ d, GYRO_DLPF_BANDWIDTH_11HZ d,
            GYRO_DLPF_BANDWIDTH_5HZ d, GYRO_DLPF_BANDWIDTH_361HZ d} \<longrightarrow>
      Icm20948_ConfigGyroDlpfBandwidth d r t = (False, t))
   \<and> (r \<notin> {TEMP_DLPF_BANDWIDTH_7932HZ d, TEMP_DLPF_BANDWIDTH_217HZ d, TEMP_DLPF_BANDWIDTH_123HZ d,
            TEMP_DLPF_BANDWIDTH_65HZ d, TEMP_DLPF_BANDWIDTH_34HZ d, TEMP_DLPF_BANDWIDTH_17HZ d,
            TEMP_DLPF_BANDWIDTH_8HZ d} \<longrightarrow>
      Icm20948_ConfigTempDlpfBandwidth d r t = (False, t))
   \<and> (a \<notin> {''2G'', ''4G'', ''8G'', ''16G''} \<longrightarrow>
      accelScale (MPU9250_begin a g m) = accelScale m \<and>
      (\<forall>x \<in> set (new_transactions (Wire m) (Wire (MPU9250_begin a g m))).
          \<not> is_write_to MPU9250_ACCEL_CONFIG x))
   \<and> (g \<notin> {''250DPS'', ''500DPS'', ''1000DPS'', ''2000DPS''} \<longrightarrow>
      gyroScale (MPU9250_begin a g m) = gyroScale m \<and>
      (\<forall>x \<in> set (new_transactions (Wire m) (Wire (MPU9250_begin a g m))).
          \<not> is_write_to MPU9250_GYRO_CONFIG x))"
proof -
  have accel9250: "a \<notin> {''2G'', ''4G'', ''8G'', ''16G''} \<longrightarrow>
      accelScale (MPU9250_begin a g m) = accelScale m \<and>
      (\<forall>x \<in> set (new_transactions (Wire m) (Wire (MPU9250_begin a g m))).
          \<not> is_write_to MPU9250_ACCEL_CONFIG x)"
    using MPU9250_begin_no_accel_write[of a m g] by (simp add: MPU9250_begin_accelScale)
  have gyro9250: "g \<notin> {''250DPS'', ''500DPS'', ''1000DPS'', ''2000DPS''} \<longrightarrow>
      gyroScale (MPU9250_begin a g m) = gyroScale m \<and>
      (\<forall>x \<in> set (new_transactions (Wire m) (Wire (MPU9250_begin a g m))).
          \<not> is_write_to MPU9250_GYRO_CONFIG x)"
    using MPU9250_begin_no_gyro_write[of g m a] by (simp add: MPU9250_begin_gyroScale)
  show ?thesis
    using accel9250 gyro9250
    by (intro conjI impI)
       (simp_all add: Icm20649_ConfigAccelRange_invalid Icm20649_ConfigGyroRange_invalid
          Icm20649_ConfigAccelDlpfBandwidth_invalid Icm20649_ConfigGyroDlpfBandwidth_invalid
          Icm20948_ConfigAccelRange_invalid Icm20948_ConfigGyroRange_invalid
          Icm20948_ConfigAccelDlpfBandwidth_invalid Icm20948_ConfigGyroDlpfBandwidth_invalid
          Icm20948_ConfigTempDlpfBandwidth_invalid Icm20649_SetBank_transactions
          Icm20649_SetBank_keeps)
qed

text \<open>
  The claim as stated fails on \<open>Icm20649\<close>: with the cached bank 0, the rejected call has
  written the bank-select register.
\<close>

theorem invalid_value_bank_select_counterexample:
  "0x7F \<notin> {ACCEL_RANGE_4G Icm20649_h, ACCEL_RANGE_8G Icm20649_h, ACCEL_RANGE_16G Icm20649_h,
            ACCEL_RANGE_30G Icm20649_h}
   \<and> \<not> fst (Icm20649_ConfigAccelRange Icm20649_h 0x7F invalid_range_input)
   \<and> new_transactions (imu invalid_range_input)
        (imu (snd (Icm20649_ConfigAccelRange Icm20649_h 0x7F invalid_range_input))) =
       [(BusWrite 0x7F 0x20, True, [])]"
  by (simp add: invalid_range_input_def Icm20649_eval eval_defs)

theorem invalid_configuration_value_rejected_witness:
  "0x7F \<notin> {ACCEL_RANGE_4G Icm20649_h, ACCEL_RANGE_8G Icm20649_h, ACCEL_RANGE_16G Icm20649_h,
            ACCEL_RANGE_30G Icm20649_h}
   \<and> Icm20649_ConfigAccelRange Icm20649_h 0x7F invalid_range_input =
       (False, snd (Icm20649_SetBank Icm20649_h 2 invalid_range_input))
   \<and> 0x7F \<notin> {TEMP_DLPF_BANDWIDTH_7932HZ Icm20948_h, TEMP_DLPF_BANDWIDTH_217HZ Icm20948_h,
            TEMP_DLPF_BANDWIDTH_123HZ Icm20948_h, TEMP_DLPF_BANDWIDTH_65HZ Icm20948_h,
            TEMP_DLPF_BANDWIDTH_34HZ Icm20948_h, TEMP_DLPF_BANDWIDTH_17HZ Icm20948_h,
            TEMP_DLPF_BANDWIDTH_8HZ Icm20948_h}
   \<and> Icm20948_ConfigTempDlpfBandwidth Icm20948_h 0x7F (fresh_Icm20948 [(True, [])]) =
       (False, fresh_Icm20948 [(True, [])])
   \<and> ''32G'' \<notin> {''2G'', ''4G'', ''8G'', ''16G''}
   \<and> accelScale (MPU9250_begin ''32G'' ''250DPS'' (fresh_MPU9250 [])) = accelScale (fresh_MPU9250 [])"
  using invalid_configuration_value_rejected[where r = "0x7F" and c = Icm20649_h
      and s = invalid_range_input and d = Icm20948_h and t = "fresh_Icm20948 [(True, [])]"
      and a = "''32G''" and g = "''250DPS''" and m = "fresh_MPU9250 []"]
  by (simp add: Icm20649_h_def Icm20948_h_def)

section \<open>The byte ConfigGyroRange writes\<close>

text \<open>
  C1. The claim does not hold of the code: \<open>ConfigGyroRange\<close> of both drivers ORs
  \<open>requested_accel_range_ << 1\<close> into the byte it writes to \<open>GYRO_CONFIG_1\<close>. After
  \<open>ConfigAccelRange\<close> with the setting encoded 3, \<open>ConfigGyroRange\<close> with the setting
  encoded 0 reads 0x00 and writes 0x06, where the requested gyro range gives 0x00; both calls
  return success.
\<close>

theorem ConfigGyroRange_writes_accel_request:
  "fst (Icm20948_ConfigAccelRange Icm20948_h (ACCEL_RANGE_16G Icm20948_h) gyro_range_input48)
   \<and> fst (Icm20948_ConfigGyroRange Icm20948_h (GYRO_RANGE_250DPS Icm20948_h)
        (snd (Icm20948_ConfigAccelRange Icm20948_h (ACCEL_RANGE_16G Icm20948_h) gyro_range_input48)))
   \<and> push_bit 1 (GYRO_RANGE_250DPS Icm20948_h) = 0x00
   \<and> issued (imu (snd (Icm20948_ConfigGyroRange Icm20948_h (GYRO_RANGE_250DPS Icm20948_h)
        (snd (Icm20948_ConfigAccelRange Icm20948_h (ACCEL_RANGE_16G Icm20948_h) gyro_range_input48))))) =
       [(BusWrite 0x7F 0x20, True, []),
        (BusRead 0x14 1, True, [0x00]), (BusWrite 0x14 0x06, True, []),
        (BusRead 0x01 1, True, [0x00]), (BusWrite 0x01 0x06, True, [])]
   \<and> fst (Icm20649_ConfigAccelRange Icm20649_h (ACCEL_RANGE_30G Icm20649_h) gyro_range_input49)
   \<and> fst (Icm20649_ConfigGyroRange Icm20649_h (GYRO_RANGE_500DPS Icm20649_h)
        (snd (Icm20649_ConfigAccelRange Icm20649_h (ACCEL_RANGE_30G Icm20649_h) gyro_range_input49)))
   \<and> push_bit 1 (GYRO_RANGE_500DPS Icm20649_h) = 0x00
   \<and> issued (imu (snd (Icm20649_ConfigGyroRange Icm20649_h (GYRO_RANGE_500DPS Icm20649_h)
        (snd (Icm20649_ConfigAccelRange Icm20649_h (ACCEL_RANGE_30G Icm20649_h) gyro_range_input49))))) =
       [(BusWrite 0x7F 0x20, True, []),
        (BusRead 0x14 1, True, [0x00]), (BusWrite 0x14 0x06, True, []),
        (BusRead 0x01 1, True, [0x00]), (BusWrite 0x01 0x06, True, [])]"
  by (simp add: gyro_range_input48_def gyro_range_input49_def Icm20649_eval Icm20948_eval eval_defs)

section \<open>A failed burst read\<close>

text \<open>
  C5. The claim does not hold of the code: \<open>Read\<close> of both drivers drops the result of the
  burst read. With the status read acknowledged and the data-ready bit set, and the burst
  read failed by the transport, \<open>Read\<close> returns true, sets \<open>new_imu_data_\<close> and publishes
  the samples computed from whatever the failed read left in \<open>data_buf_\<close>.
\<close>

theorem Read_publishes_after_failed_burst:
  "fst (Icm20948_Read Icm20948_h burst_failure_input48)
   \<and> issued (imu (snd (Icm20948_Read Icm20948_h burst_failure_input48))) =
       [(BusRead 0x1A 1, True, [0x01]),
        (BusRead 0x2D 23, False, 0x12 # 0x34 # replicate 21 0)]
   \<and> new_imu_data (snd (Icm20948_Read Icm20948_h burst_failure_input48))
   \<and> accel_cnts (snd (Icm20948_Read Icm20948_h burst_failure_input48)) 0 = 0x1234
   \<and> accel (snd (Icm20948_Read Icm20948_h burst_failure_input48)) 1 = 4660 * (16 / 32767.5) * 9.80665
   \<and> fst (Icm20649_Read Icm20649_h burst_failure_input49)
   \<and> issued (imu (snd (Icm20649_Read Icm20649_h burst_failure_input49))) =
       [(BusRead 0x1A 1, True, [0x01]),
        (BusRead 0x2D 14, False, 0x12 # 0x34 # replicate 12 0)]
   \<and> new_imu_data (snd (Icm20649_Read Icm20649_h burst_failure_input49))
   \<and> accel_cnts (snd (Icm20649_Read Icm20649_h burst_failure_input49)) 0 = 0x1234
   \<and> accel (snd (Icm20649_Read Icm20649_h burst_failure_input49)) 0 = 4660 * (32 / 32767.5) * 9.80665"
  by (simp add: burst_failure_input48_def burst_failure_input49_def Icm20948_Read_def Icm20649_Read_def
        Icm20948_Read_unpack_def Icm20948_Read_convert_def Icm20649_Read_unpack_def Icm20649_Read_convert_def
        int16_of_def Icm20649_eval Icm20948_eval eval_defs)

section \<open>Field updates\<close>




section \<open>The indirect write to the magnetometer\<close>



end
